theory Spec2Isabelle
  imports Main "HOL-Library.AList"
begin

section \<open>Errors\<close>

text \<open>
  Go errors are values. \<open>Errorf\<close> is \<open>errors.New\<close> or \<open>fmt.Errorf\<close> with the
  formatted message, \<open>Wrapf\<close> is \<open>fmt.Errorf("...: %w", err)\<close> with the text before
  the colon, \<open>GCError\<close> is an error of the blob driver carrying a \<open>gcerrors\<close> code.
  \<open>LockedError\<close> is the error of a stack that holds a lock marker, with the name of
  the stack; \<open>UnsupportedVersion v\<close> is the error of \<open>New\<close>, whose message
  formats the version with \<open>%d\<close>.
\<close>

datatype ErrorCode = OK | Unknown | NotFound

datatype error =
    Errorf string
  | Wrapf string error
  | GCError ErrorCode
  | LockedError string
  | UnsupportedVersion int

text \<open>\<open>gcerrors.Code\<close>: the code of the error or of an error it wraps; \<open>OK\<close> for nil.\<close>

fun error_Code :: "error \<Rightarrow> ErrorCode" where
  "error_Code (GCError c) = c"
| "error_Code (Wrapf msg e) = error_Code e"
| "error_Code (Errorf msg) = Unknown"
| "error_Code (LockedError stack) = Unknown"
| "error_Code (UnsupportedVersion v) = Unknown"

definition gcerrors_Code :: "error option \<Rightarrow> ErrorCode" where
  "gcerrors_Code err = (case err of None \<Rightarrow> OK | Some e \<Rightarrow> error_Code e)"

text \<open>A Go function that may panic (\<open>contract.Assertf\<close>, \<open>contract.Failf\<close>) or return.\<close>

datatype 'a outcome = Panicked string | Returned 'a

section \<open>Stack references (backend.go)\<close>

type_synonym Name = string
type_synonym QName = string

record workspace_Project =
  Name :: Name

datatype referenceStore = legacyReferenceStore | projectReferenceStore

text \<open>
  \<open>localBackendReference\<close>: the name and the project of a stack. The Go struct also
  points back to its backend; the operations below take the backend as an argument.
\<close>

record localBackendReference =
  name :: Name
  project :: Name

text \<open>
  \<open>String\<close> (backend.go 117-132), given the current project of the backend that made the
  reference (\<open>r.b.currentProject\<close>, nil when unset).
\<close>

definition String :: "workspace_Project option \<Rightarrow> localBackendReference \<Rightarrow> string" where
  "String currentProject r =
     (if project r = '''' then name r
      else if (case currentProject of None \<Rightarrow> False | Some p \<Rightarrow> project r = Name p) then name r
      else ''organization/'' @ project r @ ''/'' @ name r)"

definition FullyQualifiedName :: "localBackendReference \<Rightarrow> QName" where
  "FullyQualifiedName r =
     (if project r = '''' then name r
      else ''organization/'' @ project r @ ''/'' @ name r)"

section \<open>Per-stack configuration and secrets managers\<close>

text \<open>
  \<open>workspace.ProjectStack\<close>: the per-stack configuration file. The three fields that
  select the secrets provider, and the configuration values as the rest of the file.
\<close>

record ProjectStack =
  SecretsProvider :: string
  EncryptedKey :: string
  EncryptionSalt :: string
  Config :: "(string \<times> string) list"

text \<open>\<open>passphrase.Type\<close>, the kind name of the passphrase provider.\<close>

definition passphrase_Type :: string where
  "passphrase_Type = ''passphrase''"

subsection \<open>getStackSecretsManager (crypto.go 47-82)\<close>

text \<open>
  The collaborators of \<open>getStackSecretsManager\<close> that live outside the function: reading
  the project, loading the stack's configuration, the path of its configuration file, the
  three constructors and the caching wrapper. \<open>'s\<close> is the stack, \<open>'m\<close> a secrets
  manager. \<open>Ref_Name\<close> is \<open>s.Ref().Name()\<close>.
\<close>

record ('s, 'm) crypto_env =
  readProject :: "error + workspace_Project"
  loadProjectStack :: "workspace_Project \<Rightarrow> 's \<Rightarrow> error + ProjectStack"
  getProjectStackPath :: "'s \<Rightarrow> error + string"
  Ref_Name :: "'s \<Rightarrow> Name"
  NewCloudSecretsManager :: "Name \<Rightarrow> string \<Rightarrow> string \<Rightarrow> bool \<Rightarrow> error + 'm"
  NewPromptingPassphraseSecretsManager :: "Name \<Rightarrow> string \<Rightarrow> bool \<Rightarrow> error + 'm"
  DefaultSecretManager :: "'s \<Rightarrow> string \<Rightarrow> error + 'm"
  NewCachingSecretsManager :: "'m \<Rightarrow> 'm"

text \<open>The anonymous function of lines 59-77: the manager before it is wrapped.\<close>

definition resolveSecretsManager ::
  "('s, 'm) crypto_env \<Rightarrow> 's \<Rightarrow> ProjectStack \<Rightarrow> error + 'm" where
  "resolveSecretsManager env s ps =
     (case getProjectStackPath env s of
        Inl err \<Rightarrow> Inl err
      | Inr configFile \<Rightarrow>
          if SecretsProvider ps \<noteq> passphrase_Type \<and> SecretsProvider ps \<noteq> ''default''
             \<and> SecretsProvider ps \<noteq> ''''
          then NewCloudSecretsManager env (Ref_Name env s) configFile (SecretsProvider ps) False
          else if EncryptionSalt ps \<noteq> ''''
          then NewPromptingPassphraseSecretsManager env (Ref_Name env s) configFile False
          else DefaultSecretManager env s configFile)"

definition getStackSecretsManager :: "('s, 'm) crypto_env \<Rightarrow> 's \<Rightarrow> error + 'm" where
  "getStackSecretsManager env s =
     (case readProject env of
        Inl err \<Rightarrow> Inl err
      | Inr proj \<Rightarrow>
          (case loadProjectStack env proj s of
             Inl err \<Rightarrow> Inl err
           | Inr ps \<Rightarrow>
               (case resolveSecretsManager env s ps of
                  Inl err \<Rightarrow> Inl err
                | Inr sm \<Rightarrow> Inr (NewCachingSecretsManager env sm))))"

subsection \<open>The service secrets manager (package service)\<close>

text \<open>
  \<open>changeProjectStackSecretDetails\<close> (lines 204-219) mutates \<open>*info\<close> and returns
  whether it changed anything: the model returns the updated descriptor with the flag.
\<close>

definition changeProjectStackSecretDetails :: "ProjectStack \<Rightarrow> ProjectStack \<times> bool" where
  "changeProjectStackSecretDetails info =
     (let (info1, requiresSave1) =
            (if SecretsProvider info \<noteq> '''' then (info\<lparr>SecretsProvider := ''''\<rparr>, True)
             else (info, False));
          (info2, requiresSave2) =
            (if EncryptedKey info1 \<noteq> '''' then (info1\<lparr>EncryptedKey := ''''\<rparr>, True)
             else (info1, requiresSave1));
          (info3, requiresSave3) =
            (if EncryptionSalt info2 \<noteq> '''' then (info2\<lparr>EncryptionSalt := ''''\<rparr>, True)
             else (info2, requiresSave2))
      in (info3, requiresSave3))"

record StackIdentifier =
  Owner :: string
  Project :: string
  Stack :: string

record serviceSecretsManagerState =
  URL :: string
  Owner :: string
  Project :: string
  Stack :: string

text \<open>
  \<open>serviceSecretsManager\<close>: its state, and the stack its crypter talks to the service
  about (\<open>newServiceCrypter(client, id)\<close>).
\<close>

record serviceSecretsManager =
  state :: serviceSecretsManagerState
  crypter :: StackIdentifier

text \<open>
  The workspace functions \<open>NewServiceSecretsManager\<close> calls, and the client's URL.
  \<open>SaveProjectStack\<close> gives the error of the write, if any.
\<close>

record service_env =
  DetectProjectStackPath :: "QName \<Rightarrow> error + (workspace_Project \<times> string)"
  LoadProjectStack :: "workspace_Project \<Rightarrow> string \<Rightarrow> error + ProjectStack"
  SaveProjectStack :: "QName \<Rightarrow> ProjectStack \<Rightarrow> error option"
  client_URL :: string

text \<open>
  \<open>NewServiceSecretsManager\<close> (lines 123-161). The result pairs the calls made to
  \<open>SaveProjectStack\<close>, in order (the writes of the configuration file the function
  attempted), with what the function returns. An empty stack name fails the assertion.
\<close>

definition NewServiceSecretsManager ::
  "service_env \<Rightarrow> StackIdentifier \<Rightarrow> Name \<Rightarrow> string
     \<Rightarrow> (QName \<times> ProjectStack) list \<times> (error + serviceSecretsManager) outcome" where
  "NewServiceSecretsManager env ident stackName configFile =
     (if stackName = '''' then ([], Panicked ''stackName != \"\"'')
      else
        case DetectProjectStackPath env stackName of
          Inl err \<Rightarrow> ([], Returned (Inl err))
        | Inr (proj, path) \<Rightarrow>
            (case LoadProjectStack env proj configFile of
               Inl err \<Rightarrow> ([], Returned (Inl err))
             | Inr info0 \<Rightarrow>
                 let (info, changed) = changeProjectStackSecretDetails info0;
                     manager = \<lparr>state = \<lparr>URL = client_URL env,
                                         Owner = StackIdentifier.Owner ident,
                                         Project = StackIdentifier.Project ident,
                                         Stack = StackIdentifier.Stack ident\<rparr>,
                                crypter = ident\<rparr>
                 in if changed
                    then (case SaveProjectStack env stackName info of
                            Some err \<Rightarrow> ([(stackName, info)], Returned (Inl err))
                          | None \<Rightarrow> ([(stackName, info)], Returned (Inr manager)))
                    else ([], Returned (Inr manager))))"

subsection \<open>The service crypter (package service, lines 47-89)\<close>

type_synonym bytes = string

text \<open>
  The standard library's \<open>base64.StdEncoding\<close>: \<open>DecodeString\<close> returns an error on
  input that is not valid base64.
\<close>

record base64_Encoding =
  EncodeToString :: "bytes \<Rightarrow> string"
  DecodeString :: "string \<Rightarrow> error + bytes"

text \<open>
  The service client of a \<open>serviceCrypter\<close>, with the crypter's stack already passed:
  \<open>c.client.EncryptValue(ctx, c.stack, _)\<close> and its two siblings.
\<close>

record serviceCrypter =
  client_EncryptValue :: "bytes \<Rightarrow> error + bytes"
  client_DecryptValue :: "bytes \<Rightarrow> error + bytes"
  client_BulkDecryptValue :: "bytes list \<Rightarrow> error + (string \<rightharpoonup> bytes)"

definition EncryptValue :: "base64_Encoding \<Rightarrow> serviceCrypter \<Rightarrow> string \<Rightarrow> error + string" where
  "EncryptValue enc c plaintext =
     (case client_EncryptValue c plaintext of
        Inl err \<Rightarrow> Inl err
      | Inr ciphertext \<Rightarrow> Inr (EncodeToString enc ciphertext))"

definition DecryptValue :: "base64_Encoding \<Rightarrow> serviceCrypter \<Rightarrow> string \<Rightarrow> error + string" where
  "DecryptValue enc c cipherstring =
     (case DecodeString enc cipherstring of
        Inl err \<Rightarrow> Inl err
      | Inr ciphertext \<Rightarrow>
          (case client_DecryptValue c ciphertext of
             Inl err \<Rightarrow> Inl err
           | Inr plaintext \<Rightarrow> Inr plaintext))"

text \<open>
  The first loop of \<open>BulkDecrypt\<close> (lines 70-76): \<open>acc\<close> is \<open>secretsToDecrypt\<close> so
  far; the first value that does not decode ends the function with its error.
\<close>

fun decodeSecrets :: "base64_Encoding \<Rightarrow> bytes list \<Rightarrow> string list \<Rightarrow> error + bytes list" where
  "decodeSecrets enc acc [] = Inr acc"
| "decodeSecrets enc acc (val # vals) =
     (case DecodeString enc val of
        Inl err \<Rightarrow> Inl err
      | Inr ciphertext \<Rightarrow> decodeSecrets enc (acc @ [ciphertext]) vals)"

definition BulkDecrypt ::
  "base64_Encoding \<Rightarrow> serviceCrypter \<Rightarrow> string list \<Rightarrow> error + (string \<rightharpoonup> string)" where
  "BulkDecrypt enc c secrets =
     (case decodeSecrets enc [] secrets of
        Inl err \<Rightarrow> Inl err
      | Inr secretsToDecrypt \<Rightarrow>
          (case client_BulkDecryptValue c secretsToDecrypt of
             Inl err \<Rightarrow> Inl err
           | Inr decryptedList \<Rightarrow> Inr (\<lambda>nm. map_option (\<lambda>v. v) (decryptedList nm))))"

section \<open>Applying an update (backend.go 750-921)\<close>

text \<open>
  The method \<open>apply\<close> of the backend is \<open>localBackend_apply\<close> below. In
  \<open>UpdateInfo\<close> the fields \<open>Config\<close> and \<open>ResourceChanges\<close> of the Go struct are
  \<open>TargetConfig\<close> and \<open>Changes\<close>; a nil map of resource changes is the empty list.
\<close>

datatype UpdateKind =
    PreviewUpdate | UpdateUpdate | ResourceImportUpdate | RefreshUpdate | DestroyUpdate
  | OtherUpdateKind string

datatype UpdateResult = SucceededResult | FailedResult

type_synonym ResourceChanges = "(string \<times> nat) list"
type_synonym Plan = string

record UpdateInfo =
  Kind :: UpdateKind
  StartTime :: int
  Message :: string
  Environment :: "(string \<times> string) list"
  TargetConfig :: "(string \<times> string) list"
  Result :: UpdateResult
  EndTime :: int
  Changes :: ResourceChanges

record UpdateOperation =
  M_Message :: string
  M_Environment :: "(string \<times> string) list"

record ApplierOptions =
  DryRun :: bool
  ShowLink :: bool

text \<open>The four entry points of the engine that \<open>apply\<close> dispatches to.\<close>

datatype engine_fn = engine_Update | engine_Import | engine_Refresh | engine_Destroy

text \<open>What \<open>apply\<close> did, in order: the call into the engine (with the dry-run flag it
  passed), the append to the history, the backup of the checkpoint.\<close>

datatype apply_event =
    EngineCall engine_fn bool
  | AddToHistory UpdateInfo
  | BackupStack

text \<open>
  The collaborators of \<open>apply\<close>: validating the reference (\<open>getReference\<close>), the
  workspace's project, \<open>newUpdate\<close> (on success, the configuration of the update's
  target), the engine (its plan, its resource changes and its result, nil on success),
  the clock before and after the engine ran, and the results of \<open>addToHistory\<close> and
  \<open>backupStack\<close>.
\<close>

record apply_env =
  Validate :: "localBackendReference \<Rightarrow> error option"
  DetectProjectPath :: "error + string"
  LoadProject :: "string \<Rightarrow> error + workspace_Project"
  newUpdate :: "localBackendReference \<Rightarrow> UpdateOperation \<Rightarrow> error + (string \<times> string) list"
  engine :: "engine_fn \<Rightarrow> bool \<Rightarrow> Plan option \<times> ResourceChanges \<times> error option"
  time_start :: int
  time_finish :: int
  addToHistory :: "localBackendReference \<Rightarrow> UpdateInfo \<Rightarrow> error option"
  backupStack :: "localBackendReference \<Rightarrow> error option"

text \<open>\<open>currentProjectContradictsWorkspace\<close> (lines 452-474).\<close>

definition currentProjectContradictsWorkspace :: "apply_env \<Rightarrow> localBackendReference \<Rightarrow> bool" where
  "currentProjectContradictsWorkspace env stack =
     (if project stack = '''' then False
      else case DetectProjectPath env of
             Inl err \<Rightarrow> False
           | Inr projPath \<Rightarrow>
               if projPath = '''' then False
               else (case LoadProject env projPath of
                       Inl err \<Rightarrow> False
                     | Inr proj \<Rightarrow> Name proj \<noteq> project stack))"

text \<open>
  The tail of \<open>apply\<close> from "Save update results" (lines 847-920), once the engine has
  returned \<open>(plan, changes, updateRes)\<close>. The banner and the permalink that \<open>apply\<close>
  prints are console output and are left out; after line 885 the result is always nil.
\<close>

definition apply_save ::
  "apply_env \<Rightarrow> UpdateKind \<Rightarrow> localBackendReference \<Rightarrow> UpdateOperation \<Rightarrow> ApplierOptions
     \<Rightarrow> (string \<times> string) list \<Rightarrow> Plan option \<times> ResourceChanges \<times> error option
     \<Rightarrow> apply_event list \<times> (Plan option \<times> ResourceChanges \<times> error option)" where
  "apply_save env kind localStackRef opr opts config r =
     (case r of (plan, changes, updateRes) \<Rightarrow>
        let backendUpdateResult = (if updateRes \<noteq> None then FailedResult else SucceededResult);
            info = \<lparr>Kind = kind, StartTime = time_start env, Message = M_Message opr,
                    Environment = M_Environment opr, TargetConfig = config,
                    Result = backendUpdateResult, EndTime = time_finish env,
                    Changes = changes\<rparr>;
            (events, saveErr, backupErr) =
              (if \<not> DryRun opts
               then ([AddToHistory info, BackupStack],
                     addToHistory env localStackRef info, backupStack env localStackRef)
               else ([], None, None))
        in if updateRes \<noteq> None then (events, (plan, changes, updateRes))
           else case saveErr of
                  Some e \<Rightarrow> (events, (plan, changes, Some (Wrapf ''saving update info'' e)))
                | None \<Rightarrow>
                    (case backupErr of
                       Some e \<Rightarrow> (events, (plan, changes, Some (Wrapf ''saving backup'' e)))
                     | None \<Rightarrow> (events, (plan, changes, None))))"

text \<open>
  The switch on the kind (lines 821-834): which engine function runs, with which dry-run
  flag, and whether the plan is kept. An unrecognised kind is \<open>None\<close> (the code panics).
\<close>

definition engine_dispatch :: "UpdateKind \<Rightarrow> ApplierOptions \<Rightarrow> (engine_fn \<times> bool \<times> bool) option" where
  "engine_dispatch kind opts =
     (case kind of
        PreviewUpdate \<Rightarrow> Some (engine_Update, True, True)
      | UpdateUpdate \<Rightarrow> Some (engine_Update, DryRun opts, False)
      | ResourceImportUpdate \<Rightarrow> Some (engine_Import, DryRun opts, False)
      | RefreshUpdate \<Rightarrow> Some (engine_Refresh, DryRun opts, False)
      | DestroyUpdate \<Rightarrow> Some (engine_Destroy, DryRun opts, False)
      | OtherUpdateKind k \<Rightarrow> None)"

definition localBackend_apply ::
  "apply_env \<Rightarrow> UpdateKind \<Rightarrow> localBackendReference \<Rightarrow> UpdateOperation \<Rightarrow> ApplierOptions
     \<Rightarrow> apply_event list \<times> (Plan option \<times> ResourceChanges \<times> error option) outcome" where
  "localBackend_apply env kind stackRef opr opts =
     (case Validate env stackRef of
        Some err \<Rightarrow> ([], Returned (None, [], Some err))
      | None \<Rightarrow>
          if currentProjectContradictsWorkspace env stackRef
          then ([], Returned (None, [],
                  Some (Errorf (''provided project name \"'' @ project stackRef
                                @ ''\" doesn't match Pulumi.yaml''))))
          else
            case newUpdate env stackRef opr of
              Inl err \<Rightarrow> ([], Returned (None, [], Some err))
            | Inr config \<Rightarrow>
                (case engine_dispatch kind opts of
                   None \<Rightarrow> ([], Panicked ''Unrecognized update kind'')
                 | Some (fn, dryRun, keepPlan) \<Rightarrow>
                     (case engine env fn dryRun of (plan, changes, updateRes) \<Rightarrow>
                        (case apply_save env kind stackRef opr opts config
                                (if keepPlan then plan else None, changes, updateRes) of
                           (events, res) \<Rightarrow> (EngineCall fn dryRun # events, Returned res)))))"

section \<open>The bucket\<close>

text \<open>
  A checkpoint holds the latest snapshot of a stack, or none; a snapshot lists resources;
  a resource has a URN, which names its stack and its project. \<open>URN_Project\<close> is
  \<open>res.URN.Project()\<close>.
\<close>

record resource_URN =
  urnStack :: string
  urnProject :: string
  urnType :: string
  urnName :: string


record Resource =
  URN :: resource_URN
  Outputs :: string

record Snapshot =
  Resources :: "Resource list"

record Checkpoint =
  Latest :: "Snapshot option"

text \<open>
  Modelled from the spec: the bucket (section 4.1; its drivers are not part of the
  sources). Objects are addressed by what they are rather than by a path string: the
  checkpoint of a stack (\<open>b.stackPath(ref)\<close>; under the legacy layout the project is
  empty, section 4.2), a lock marker in a stack's lock directory (section 4.3), a record
  of a stack's history, a backup of another object, and the layout manifest
  \<open>Pulumi.yaml\<close>.
\<close>

datatype Key =
    StackFile Name Name
  | LockFile QName string
  | HistoryFile Name Name nat
  | BackupFile Key nat
  | MetaFile

datatype Object =
    CheckpointObject Checkpoint
  | HistoryObject UpdateInfo
  | LockObject
  | MetaObject int

type_synonym Bucket = "(Key \<times> Object) list"

text \<open>
  The failures of the storage layer (section 7) and of the snapshot editor are a
  parameter: for a write, an existence test, the relocation of a history record and the
  editor's rewriting of a snapshot, each on a key or a snapshot, the error it ends in,
  if any; and the error of the listing of the stacks, if any. These are the calls whose
  error \<open>Upgrade\<close>, \<open>renameStack\<close> and \<open>New\<close> handle.
\<close>

record faults =
  WriteAll_fails :: "Key \<Rightarrow> error option"
  Exists_fails :: "Key \<Rightarrow> error option"
  List_fails :: "error option"
  Copy_fails :: "Key \<Rightarrow> error option"
  RenameStack_fails :: "Snapshot \<Rightarrow> error option"

text \<open>
  Modelled from the spec: the operations of the bucket (section 4.1). A read or a delete
  of a missing key fails with \<open>NotFound\<close>. A write either replaces the object or fails
  and leaves the bucket as it was (section 3); an existence test answers or fails.
\<close>

definition bucket_ReadAll :: "Bucket \<Rightarrow> Key \<Rightarrow> error + Object" where
  "bucket_ReadAll bk k = (case map_of bk k of None \<Rightarrow> Inl (GCError NotFound) | Some obj \<Rightarrow> Inr obj)"



definition bucket_Delete :: "Bucket \<Rightarrow> Key \<Rightarrow> error + Bucket" where
  "bucket_Delete bk k =
     (case map_of bk k of None \<Rightarrow> Inl (GCError NotFound) | Some obj \<Rightarrow> Inr (AList.delete k bk))"

text \<open>An entry of a listing (\<open>blob.ListObject\<close>): a key, or a directory.\<close>

record ListObject =
  Key :: Key
  IsDir :: bool

section \<open>The backend (backend.go)\<close>

record pulumiMeta =
  Version :: int

text \<open>
  \<open>localBackend\<close> (lines 77-101). The diagnostics sink and the mutex are left out; the
  bucket is the contents of the bucket the backend holds.
\<close>

record localBackend =
  originalURL :: string
  url :: string
  bucket :: Bucket
  lockID :: string
  gzip :: bool
  currentProject :: "workspace_Project option"
  store :: referenceStore

text \<open>Modelled from the spec: \<open>stackPath\<close>, the key of a stack's checkpoint (section 4.2).\<close>

definition stackPath :: "localBackendReference \<Rightarrow> Key" where
  "stackPath ref = StackFile (project ref) (name ref)"


text \<open>
  Modelled from the spec: \<open>ListReferences\<close> of the legacy store (section 4.2): the
  stacks of the flat namespace, whose project is always empty, unless the listing fails.
\<close>

definition legacy_ListReferences :: "faults \<Rightarrow> Bucket \<Rightarrow> error + localBackendReference list" where
  "legacy_ListReferences fs bk =
     (case List_fails fs of
        Some err \<Rightarrow> Inl err
      | None \<Rightarrow>
          Inr (List.map_filter
                 (\<lambda>k. case k of
                         StackFile p n \<Rightarrow> if p = '''' then Some \<lparr>name = n, project = ''''\<rparr> else None
                       | _ \<Rightarrow> None)
                 (map fst bk)))"

text \<open>
  Modelled from the spec: \<open>ensurePulumiMeta\<close> reads the layout manifest; an absent
  manifest implies version 0 (section 6).
\<close>

definition ensurePulumiMeta :: "Bucket \<Rightarrow> error + pulumiMeta" where
  "ensurePulumiMeta bk =
     (case map_of bk MetaFile of
        None \<Rightarrow> Inr \<lparr>Version = 0\<rparr>
      | Some (MetaObject v) \<Rightarrow> Inr \<lparr>Version = v\<rparr>
      | Some other \<Rightarrow> Inl (Errorf ''could not unmarshal Pulumi.yaml''))"

subsection \<open>Locks\<close>

text \<open>
  Modelled from the spec (section 4.3): the markers in a stack's lock directory; \<open>Lock\<close>
  writes a marker named with the backend's lock id, on condition that the directory is
  empty, and fails with a \<open>Locked\<close> error naming the stack otherwise, the one failure
  that section gives it; \<open>Unlock\<close> deletes only the marker this backend created.
\<close>

definition lockMarkers :: "Bucket \<Rightarrow> QName \<Rightarrow> Key list" where
  "lockMarkers bk fq = filter (\<lambda>k. case k of LockFile q i \<Rightarrow> q = fq | _ \<Rightarrow> False) (map fst bk)"

definition Lock :: "localBackend \<Rightarrow> localBackendReference \<Rightarrow> error + localBackend" where
  "Lock b ref =
     (if lockMarkers (bucket b) (FullyQualifiedName ref) \<noteq> []
      then Inl (LockedError (FullyQualifiedName ref))
      else Inr (b\<lparr>bucket := AList.update (LockFile (FullyQualifiedName ref) (lockID b)) LockObject
                                  (bucket b)\<rparr>))"

definition Unlock :: "localBackend \<Rightarrow> localBackendReference \<Rightarrow> localBackend" where
  "Unlock b ref = b\<lparr>bucket := AList.delete (LockFile (FullyQualifiedName ref) (lockID b)) (bucket b)\<rparr>"

text \<open>
  Modelled from the spec: \<open>listBucket\<close> on a stack's lock directory, when nothing else
  touches the bucket: one entry for each marker.
\<close>

definition listBucket_stackLockDir :: "Bucket \<Rightarrow> QName \<Rightarrow> error + ListObject list" where
  "listBucket_stackLockDir bk fq = Inr (map (\<lambda>k. \<lparr>Key = k, IsDir = False\<rparr>) (lockMarkers bk fq))"

subsection \<open>CancelCurrentUpdate (lines 1096-1123)\<close>

text \<open>
  The loop over the listed files (lines 1107-1120), on the bucket as it is when the
  deletes run.
\<close>

fun CancelCurrentUpdate_files :: "Bucket \<Rightarrow> ListObject list \<Rightarrow> Bucket \<times> error option" where
  "CancelCurrentUpdate_files bk [] = (bk, None)"
| "CancelCurrentUpdate_files bk (file # files) =
     (if IsDir file then CancelCurrentUpdate_files bk files
      else case bucket_Delete bk (Key file) of
             Inl err \<Rightarrow>
               if gcerrors_Code (Some err) = NotFound then (bk, None) else (bk, Some err)
           | Inr bk' \<Rightarrow> CancelCurrentUpdate_files bk' files)"

text \<open>
  \<open>CancelCurrentUpdate\<close>, given what \<open>listBucket\<close> returned for the stack's lock
  directory. The listing is an argument of its own because the bucket is shared: a marker
  that was listed may be gone by the time it is deleted.
\<close>

definition CancelCurrentUpdate ::
  "localBackend \<Rightarrow> error + ListObject list \<Rightarrow> localBackend \<times> error option" where
  "CancelCurrentUpdate b listing =
     (case listing of
        Inl err \<Rightarrow> if gcerrors_Code (Some err) = NotFound then (b, None) else (b, Some err)
      | Inr allFiles \<Rightarrow>
          (case CancelCurrentUpdate_files (bucket b) allFiles of
             (bk, res) \<Rightarrow> (b\<lparr>bucket := bk\<rparr>, res)))"

subsection \<open>Checkpoints\<close>

text \<open>
  Modelled from the spec (section 4.4): \<open>getCheckpoint\<close> reads and deserialises the
  checkpoint of a stack, \<open>NotFound\<close> when there is none; \<open>getStack\<close> gives its
  snapshot (nil when the checkpoint has none).
\<close>

definition getCheckpoint :: "localBackend \<Rightarrow> localBackendReference \<Rightarrow> error + Checkpoint" where
  "getCheckpoint b ref =
     (case bucket_ReadAll (bucket b) (stackPath ref) of
        Inl err \<Rightarrow> Inl err
      | Inr (CheckpointObject chk) \<Rightarrow> Inr chk
      | Inr other \<Rightarrow> Inl (Errorf ''could not unmarshal checkpoint''))"

definition getStack :: "localBackend \<Rightarrow> localBackendReference \<Rightarrow> error + Snapshot option" where
  "getStack b ref =
     (case getCheckpoint b ref of
        Inl err \<Rightarrow> Inl (Wrapf ''failed to load checkpoint'' err)
      | Inr chk \<Rightarrow> Inr (Latest chk))"

text \<open>
  Modelled from the spec: \<open>backupTarget\<close> copies the object at a key to a backup key
  that holds no backup yet (backups are never pruned, section 3), and deletes the
  original unless it is told to keep it; nothing happens when there is no object.
\<close>

definition backupTarget :: "Bucket \<Rightarrow> Key \<Rightarrow> bool \<Rightarrow> Bucket" where
  "backupTarget bk file keepOriginal =
     (case map_of bk file of
        None \<Rightarrow> bk
      | Some obj \<Rightarrow>
          let n = length (filter (\<lambda>k. case k of BackupFile f i \<Rightarrow> f = file | _ \<Rightarrow> False) (map fst bk));
              bk1 = AList.update (BackupFile file n) obj bk
          in if keepOriginal then bk1 else AList.delete file bk1)"




text \<open>
  Modelled from the spec: \<open>removeStack\<close> backs up the checkpoint object rather than
  deleting it (section 4.4, Removal), and drops the stack's history.
\<close>

definition removeStack :: "localBackend \<Rightarrow> localBackendReference \<Rightarrow> localBackend \<times> error option" where
  "removeStack b ref =
     (b\<lparr>bucket :=
          filter (\<lambda>(k, obj). case k of HistoryFile p n i \<Rightarrow> \<not> (p = project ref \<and> n = name ref) | _ \<Rightarrow> True)
                 (backupTarget (bucket b) (stackPath ref) False)\<rparr>,
      None)"



subsection \<open>RemoveStack (lines 563-586)\<close>

text \<open>\<open>getReference\<close> (lines 363-369), given the store's validation of the reference.\<close>

definition getReference ::
  "(localBackendReference \<Rightarrow> error option) \<Rightarrow> localBackendReference \<Rightarrow> localBackendReference \<times> error option" where
  "getReference validate stackRef = (stackRef, validate stackRef)"

text \<open>The body of \<open>RemoveStack\<close> under the lock (lines 575-585).\<close>

definition RemoveStack_locked ::
  "localBackend \<Rightarrow> localBackendReference \<Rightarrow> bool \<Rightarrow> localBackend \<times> bool \<times> error option" where
  "RemoveStack_locked b localStackRef force =
     (case getStack b localStackRef of
        Inl err \<Rightarrow> (b, False, Some err)
      | Inr snapshot \<Rightarrow>
          if \<not> force \<and> (case snapshot of None \<Rightarrow> False | Some snap \<Rightarrow> length (Resources snap) > 0)
          then (b, True, Some (Errorf ''refusing to remove stack because it still contains resources''))
          else (case removeStack b localStackRef of (b', err) \<Rightarrow> (b', False, err)))"

text \<open>\<open>RemoveStack\<close>: the deferred \<open>Unlock\<close> runs on every path once the lock is held.\<close>

definition RemoveStack ::
  "(localBackendReference \<Rightarrow> error option) \<Rightarrow> localBackend \<Rightarrow> localBackendReference \<Rightarrow> bool
     \<Rightarrow> localBackend \<times> bool \<times> error option" where
  "RemoveStack validate b stackRef force =
     (case getReference validate stackRef of
        (localStackRef, Some err) \<Rightarrow> (b, False, Some err)
      | (localStackRef, None) \<Rightarrow>
          (case Lock b localStackRef of
             Inl err \<Rightarrow> (b, False, Some err)
           | Inr b1 \<Rightarrow>
               (case RemoveStack_locked b1 localStackRef force of
                  (b2, r) \<Rightarrow> (Unlock b2 localStackRef, r))))"

subsection \<open>renameStack (lines 610-655) and Upgrade (lines 267-308)\<close>






subsection \<open>New (lines 166-265)\<close>

record parsed_URL =
  Scheme :: string
  Path :: string

text \<open>
  What \<open>New\<close> asks of its surroundings: whether the URL has a bucket scheme, the
  canonical form of the URL, its parse, the credentials for Google's store, the bucket
  the URL opens, the bucket under a prefix, a fresh lock id, the gzip switch of the
  process environment, and the failures of the storage layer.
\<close>

record New_env =
  IsFileStateBackendURL :: "string \<Rightarrow> bool"
  massageBlobPath :: "string \<Rightarrow> error + string"
  url_Parse :: "string \<Rightarrow> error + parsed_URL"
  GoogleCredentialsMux :: "error option"
  OpenBucket :: "string \<Rightarrow> error + Bucket"
  PrefixedBucket :: "Bucket \<Rightarrow> string \<Rightarrow> Bucket"
  uuid_NewV4 :: "error + string"
  gzipCompression :: bool
  storage_faults :: faults

definition FilePathPrefix :: string where
  "FilePathPrefix = ''file://''"

definition gcsblob_Scheme :: string where
  "gcsblob_Scheme = ''gs''"

definition strings_HasPrefix :: "string \<Rightarrow> string \<Rightarrow> bool" where
  "strings_HasPrefix s p = (take (length p) s = p)"

definition strings_HasSuffix :: "string \<Rightarrow> string \<Rightarrow> bool" where
  "strings_HasSuffix s p = (length p \<le> length s \<and> drop (length s - length p) s = p)"

text \<open>The bucket under the sub-directory of the URL's path (lines 198-207).\<close>

definition New_subDir :: "New_env \<Rightarrow> string \<Rightarrow> parsed_URL \<Rightarrow> Bucket \<Rightarrow> Bucket" where
  "New_subDir env u p bk =
     (if \<not> strings_HasPrefix u FilePathPrefix
      then (let bucketSubDir = dropWhile (\<lambda>c. c = CHR ''/'') (Path p)
            in if bucketSubDir \<noteq> ''''
               then PrefixedBucket env bk
                      (if \<not> strings_HasSuffix bucketSubDir ''/'' then bucketSubDir @ ''/''
                       else bucketSubDir)
               else bk)
      else bk)"

text \<open>
  The end of \<open>New\<close> (lines 224-264), once the manifest is read and the lock id drawn:
  the switch on the version sets the store of the backend (the Go struct is built with
  the store unset; every branch that returns a backend sets it), and in project mode the
  names of the legacy stacks are warned about. The result is the backend with the names
  it warned about. In the first error of \<open>New\<close> the list of schemes that ends the
  message is left out.
\<close>

definition New_store ::
  "faults \<Rightarrow> localBackend \<Rightarrow> pulumiMeta \<Rightarrow> error + (localBackend \<times> Name list)" where
  "New_store fs backend pulumiState =
     (if Version pulumiState = 0 then Inr (backend\<lparr>store := legacyReferenceStore\<rparr>, [])
      else if Version pulumiState = 1
      then (case legacy_ListReferences fs (bucket backend) of
              Inl err \<Rightarrow> Inr (backend\<lparr>store := projectReferenceStore\<rparr>, [])
            | Inr refs \<Rightarrow> Inr (backend\<lparr>store := projectReferenceStore\<rparr>, map name refs))
      else Inl (UnsupportedVersion (Version pulumiState)))"

definition New ::
  "New_env \<Rightarrow> string \<Rightarrow> workspace_Project option \<Rightarrow> error + (localBackend \<times> Name list)" where
  "New env origURL proj =
     (if \<not> IsFileStateBackendURL env origURL
      then Inl (Errorf (''local URL '' @ origURL @ '' has an illegal prefix''))
      else
        case massageBlobPath env origURL of
          Inl err \<Rightarrow> Inl err
        | Inr u \<Rightarrow>
            (case url_Parse env u of
               Inl err \<Rightarrow> Inl err
             | Inr p \<Rightarrow>
                 (case (if Scheme p = gcsblob_Scheme then GoogleCredentialsMux env else None) of
                    Some err \<Rightarrow> Inl err
                  | None \<Rightarrow>
                      (case OpenBucket env u of
                         Inl err \<Rightarrow> Inl (Wrapf (''unable to open bucket '' @ u) err)
                       | Inr bk0 \<Rightarrow>
                           (case ensurePulumiMeta (New_subDir env u p bk0) of
                              Inl err \<Rightarrow> Inl err
                            | Inr pulumiState \<Rightarrow>
                                (case uuid_NewV4 env of
                                   Inl err \<Rightarrow> Inl err
                                 | Inr lockId \<Rightarrow>
                                     New_store (storage_faults env)
                                       \<lparr>originalURL = origURL, url = u,
                                        bucket = New_subDir env u p bk0, lockID = lockId,
                                        gzip = gzipCompression env, currentProject = proj,
                                        store = legacyReferenceStore\<rparr>
                                       pulumiState))))))"

section \<open>Example inputs\<close>

text \<open>
  Concrete collaborators and inputs, used where a property is shown at an instance. A
  secrets manager is written as a string that names how it was built.
\<close>

definition ps_example_cloud :: ProjectStack where
  "ps_example_cloud = \<lparr>SecretsProvider = ''awskms://alias/key'', EncryptedKey = ''AQICAH'',
                        EncryptionSalt = ''v1:salt'', Config = [(''aws:region'', ''us-east-1'')]\<rparr>"

definition ps_example_passphrase :: ProjectStack where
  "ps_example_passphrase = \<lparr>SecretsProvider = ''passphrase'', EncryptedKey = '''',
                             EncryptionSalt = ''v1:salt'', Config = [(''aws:region'', ''us-east-1'')]\<rparr>"

definition ps_example_default :: ProjectStack where
  "ps_example_default = \<lparr>SecretsProvider = '''', EncryptedKey = '''', EncryptionSalt = '''',
                          Config = [(''aws:region'', ''us-east-1'')]\<rparr>"

definition crypto_env_example :: "ProjectStack \<Rightarrow> (string, string) crypto_env" where
  "crypto_env_example ps =
     \<lparr>readProject = Inr \<lparr>Name = ''infra''\<rparr>,
      loadProjectStack = (\<lambda>proj s. Inr ps),
      getProjectStackPath = (\<lambda>s. Inr (''Pulumi.'' @ s @ ''.yaml'')),
      Ref_Name = (\<lambda>s. s),
      NewCloudSecretsManager = (\<lambda>nm file provider rotate. Inr (''cloud:'' @ provider)),
      NewPromptingPassphraseSecretsManager = (\<lambda>nm file rotate. Inr ''passphrase-prompt''),
      DefaultSecretManager = (\<lambda>s file. Inr ''default''),
      NewCachingSecretsManager = (\<lambda>m. ''caching('' @ m @ '')'')\<rparr>"

definition service_env_example :: "ProjectStack \<Rightarrow> service_env" where
  "service_env_example info =
     \<lparr>DetectProjectStackPath = (\<lambda>q. Inr (\<lparr>Name = ''infra''\<rparr>, ''Pulumi.'' @ q @ ''.yaml'')),
      LoadProjectStack = (\<lambda>proj file. Inr info),
      SaveProjectStack = (\<lambda>q saved. None),
      client_URL = ''https://api.pulumi.com''\<rparr>"

definition ident_example :: StackIdentifier where
  "ident_example = \<lparr>StackIdentifier.Owner = ''acme'', StackIdentifier.Project = ''infra'',
                     StackIdentifier.Stack = ''prod''\<rparr>"

text \<open>
  A fragment of base64 as a table, a service that reverses the bytes it is given, and
  the collaborators of \<open>apply\<close> for an update whose engine run fails, or succeeds with
  the history and the backup both failing to write.
\<close>

definition base64_example :: base64_Encoding where
  "base64_example =
     \<lparr>EncodeToString = (\<lambda>b. if b = ''hi'' then ''aGk='' else if b = ''ih'' then ''aWg='' else ''''),
      DecodeString = (\<lambda>s. if s = ''aGk='' then Inr ''hi''
                           else if s = ''aWg='' then Inr ''ih''
                           else Inl (Errorf ''illegal base64 data''))\<rparr>"

definition serviceCrypter_example :: serviceCrypter where
  "serviceCrypter_example =
     \<lparr>client_EncryptValue = (\<lambda>plain. Inr (rev plain)),
      client_DecryptValue = (\<lambda>cipher. Inr (rev cipher)),
      client_BulkDecryptValue = (\<lambda>ciphers. Inr (map_of (map (\<lambda>c. (c, rev c)) ciphers)))\<rparr>"

definition apply_env_example :: "error option \<Rightarrow> error option \<Rightarrow> error option \<Rightarrow> apply_env" where
  "apply_env_example updateRes saveErr backupErr =
     \<lparr>Validate = (\<lambda>r. None),
      DetectProjectPath = Inr '''',
      LoadProject = (\<lambda>p. Inl (Errorf ''no project'')),
      newUpdate = (\<lambda>r opr. Inr [(''aws:region'', ''us-east-1'')]),
      engine = (\<lambda>fn dryRun. (None, [(''create'', 1)], updateRes)),
      time_start = 100,
      time_finish = 160,
      addToHistory = (\<lambda>r info. saveErr),
      backupStack = (\<lambda>r. backupErr)\<rparr>"

text \<open>A storage layer and an editor that never fail.\<close>

definition faults_none :: faults where
  "faults_none = \<lparr>WriteAll_fails = (\<lambda>k. None), Exists_fails = (\<lambda>k. None), List_fails = None,
                   Copy_fails = (\<lambda>k. None), RenameStack_fails = (\<lambda>snap. None)\<rparr>"


definition New_env_example :: "Bucket \<Rightarrow> New_env" where
  "New_env_example bk =
     \<lparr>IsFileStateBackendURL = (\<lambda>u. True),
      massageBlobPath = (\<lambda>u. Inr u),
      url_Parse = (\<lambda>u. Inr \<lparr>Scheme = ''file'', Path = ''/state''\<rparr>),
      GoogleCredentialsMux = None,
      OpenBucket = (\<lambda>u. Inr bk),
      PrefixedBucket = (\<lambda>b prefix. b),
      uuid_NewV4 = Inr ''lock-1'',
      gzipCompression = False,
      storage_faults = faults_none\<rparr>"

text \<open>
  A backend on the legacy layout whose bucket holds the stack \<open>prod\<close>, with one
  resource of the project \<open>infra\<close>, and the stack \<open>empty\<close>, never deployed.
\<close>

definition checkpoint_example :: Checkpoint where
  "checkpoint_example =
     \<lparr>Latest = Some \<lparr>Resources =
         [\<lparr>URN = \<lparr>urnStack = ''prod'', urnProject = ''infra'',
                   urnType = ''aws:s3/bucket:Bucket'', urnName = ''logs''\<rparr>,
           Outputs = ''{}''\<rparr>]\<rparr>\<rparr>"

definition backend_example :: localBackend where
  "backend_example =
     \<lparr>originalURL = ''file:///state'', url = ''file:///state'',
      bucket = [(StackFile '''' ''prod'', CheckpointObject checkpoint_example),
                (StackFile '''' ''empty'', CheckpointObject \<lparr>Latest = None\<rparr>)],
      lockID = ''lock-1'', gzip = False, currentProject = None,
      store = legacyReferenceStore\<rparr>"

section \<open>Notions for the migration\<close>

text \<open>
  The keys that make up the layout of stacks: the checkpoint objects and the manifest.
\<close>

definition layoutKey :: "Key \<Rightarrow> bool" where
  "layoutKey k = (case k of StackFile p n \<Rightarrow> True | MetaFile \<Rightarrow> True | _ \<Rightarrow> False)"




section \<open>Properties\<close>

subsection \<open>Rendering a stack reference\<close>

text \<open>
  C7. A reference with a project renders as its bare name when the backend's current
  project has the same name, and as \<open>organization/<project>/<name>\<close> when the current
  project is unset or named differently; a reference with an empty project renders as its
  name. At project \<open>infra\<close> and name \<open>prod\<close> these are \<open>prod\<close> and
  \<open>organization/infra/prod\<close>.
\<close>

theorem String_elides_current_project:
  "(project r \<noteq> '''' \<and> cp = Some p \<and> Name p = project r \<longrightarrow> String cp r = name r)
   \<and> (project r \<noteq> '''' \<and> (cp = None \<or> (\<exists>q. cp = Some q \<and> Name q \<noteq> project r))
        \<longrightarrow> String cp r = ''organization/'' @ project r @ ''/'' @ name r)
   \<and> (project r = '''' \<longrightarrow> String cp r = name r)"
  by (auto simp: String_def split: option.splits)

theorem String_elides_current_project_witness:
  "String (Some \<lparr>Name = ''infra''\<rparr>) \<lparr>name = ''prod'', project = ''infra''\<rparr> = ''prod''
   \<and> String None \<lparr>name = ''prod'', project = ''infra''\<rparr> = ''organization/infra/prod''
   \<and> String (Some \<lparr>Name = ''web''\<rparr>) \<lparr>name = ''prod'', project = ''infra''\<rparr>
       = ''organization/infra/prod''
   \<and> String (Some \<lparr>Name = ''infra''\<rparr>) \<lparr>name = ''prod'', project = ''''\<rparr> = ''prod''"
  using String_elides_current_project
          [of "\<lparr>name = ''prod'', project = ''infra''\<rparr>" "Some \<lparr>Name = ''infra''\<rparr>" "\<lparr>Name = ''infra''\<rparr>"]
        String_elides_current_project
          [of "\<lparr>name = ''prod'', project = ''infra''\<rparr>" None]
        String_elides_current_project
          [of "\<lparr>name = ''prod'', project = ''infra''\<rparr>" "Some \<lparr>Name = ''web''\<rparr>"]
        String_elides_current_project
          [of "\<lparr>name = ''prod'', project = ''''\<rparr>" "Some \<lparr>Name = ''infra''\<rparr>"]
  by simp

subsection \<open>Resolving a stack's secrets manager\<close>

text \<open>
  C3. Once the project, the stack's configuration \<open>ps\<close> and the path of its
  configuration file are read, \<open>getStackSecretsManager\<close> decides in this order: a
  \<open>SecretsProvider\<close> that is neither \<open>passphrase\<close>, \<open>default\<close> nor empty gives the
  cloud secrets manager built from that provider; otherwise a non-empty
  \<open>EncryptionSalt\<close> gives the prompting passphrase manager; otherwise the stack's default
  manager. What the chosen constructor returns is passed on, an error as it is and a
  manager wrapped by \<open>NewCachingSecretsManager\<close>; every manager the function returns is
  such a wrapped one.
\<close>

theorem getStackSecretsManager_order:
  assumes "readProject env = Inr proj"
      and "loadProjectStack env proj s = Inr ps"
      and "getProjectStackPath env s = Inr configFile"
  shows "(SecretsProvider ps \<noteq> ''passphrase'' \<and> SecretsProvider ps \<noteq> ''default''
            \<and> SecretsProvider ps \<noteq> ''''
          \<longrightarrow> getStackSecretsManager env s
                = map_sum (\<lambda>e. e) (NewCachingSecretsManager env)
                    (NewCloudSecretsManager env (Ref_Name env s) configFile (SecretsProvider ps) False))
       \<and> ((SecretsProvider ps = ''passphrase'' \<or> SecretsProvider ps = ''default''
              \<or> SecretsProvider ps = '''') \<and> EncryptionSalt ps \<noteq> ''''
          \<longrightarrow> getStackSecretsManager env s
                = map_sum (\<lambda>e. e) (NewCachingSecretsManager env)
                    (NewPromptingPassphraseSecretsManager env (Ref_Name env s) configFile False))
       \<and> ((SecretsProvider ps = ''passphrase'' \<or> SecretsProvider ps = ''default''
              \<or> SecretsProvider ps = '''') \<and> EncryptionSalt ps = ''''
          \<longrightarrow> getStackSecretsManager env s
                = map_sum (\<lambda>e. e) (NewCachingSecretsManager env) (DefaultSecretManager env s configFile))
       \<and> (\<forall>m. getStackSecretsManager env s = Inr m \<longrightarrow> (\<exists>sm. m = NewCachingSecretsManager env sm))"
  using assms
  by (auto simp: getStackSecretsManager_def resolveSecretsManager_def passphrase_Type_def
           split: sum.splits)

text \<open>
  Three stacks of one project, told apart by their configuration: a KMS provider with a
  salt left over, a passphrase salt, and neither.
\<close>

theorem getStackSecretsManager_order_witness:
  "getStackSecretsManager (crypto_env_example ps_example_cloud) ''prod''
     = Inr (''caching('' @ ''cloud:awskms://alias/key'' @ '')'')
   \<and> getStackSecretsManager (crypto_env_example ps_example_passphrase) ''prod''
     = Inr (''caching('' @ ''passphrase-prompt'' @ '')'')
   \<and> getStackSecretsManager (crypto_env_example ps_example_default) ''prod''
     = Inr (''caching('' @ ''default'' @ '')'')"
proof -
  have r: "readProject (crypto_env_example ps) = Inr \<lparr>Name = ''infra''\<rparr>" for ps
    by (simp add: crypto_env_example_def)
  have l: "loadProjectStack (crypto_env_example ps) \<lparr>Name = ''infra''\<rparr> ''prod'' = Inr ps" for ps
    by (simp add: crypto_env_example_def)
  have p: "getProjectStackPath (crypto_env_example ps) ''prod'' = Inr ''Pulumi.prod.yaml''" for ps
    by (simp add: crypto_env_example_def)
  have h1: "SecretsProvider ps_example_cloud \<noteq> ''passphrase''
              \<and> SecretsProvider ps_example_cloud \<noteq> ''default''
              \<and> SecretsProvider ps_example_cloud \<noteq> ''''"
    by (simp add: ps_example_cloud_def)
  have h2: "(SecretsProvider ps_example_passphrase = ''passphrase''
               \<or> SecretsProvider ps_example_passphrase = ''default''
               \<or> SecretsProvider ps_example_passphrase = '''')
              \<and> EncryptionSalt ps_example_passphrase \<noteq> ''''"
    by (simp add: ps_example_passphrase_def)
  have h3: "(SecretsProvider ps_example_default = ''passphrase''
               \<or> SecretsProvider ps_example_default = ''default''
               \<or> SecretsProvider ps_example_default = '''')
              \<and> EncryptionSalt ps_example_default = ''''"
    by (simp add: ps_example_default_def)
  note t1 = getStackSecretsManager_order [OF r l p, of ps_example_cloud, THEN conjunct1, rule_format, OF h1]
  note t2 = getStackSecretsManager_order [OF r l p, of ps_example_passphrase, THEN conjunct2,
                                          THEN conjunct1, rule_format, OF h2]
  note t3 = getStackSecretsManager_order [OF r l p, of ps_example_default, THEN conjunct2,
                                          THEN conjunct2, THEN conjunct1, rule_format, OF h3]
  have c1: "getStackSecretsManager (crypto_env_example ps_example_cloud) ''prod''
              = Inr (''caching('' @ ''cloud:awskms://alias/key'' @ '')'')"
    unfolding t1 by (simp add: crypto_env_example_def ps_example_cloud_def)
  have c2: "getStackSecretsManager (crypto_env_example ps_example_passphrase) ''prod''
              = Inr (''caching('' @ ''passphrase-prompt'' @ '')'')"
    unfolding t2 by (simp add: crypto_env_example_def)
  have c3: "getStackSecretsManager (crypto_env_example ps_example_default) ''prod''
              = Inr (''caching('' @ ''default'' @ '')'')"
    unfolding t3 by (simp add: crypto_env_example_def)
  show ?thesis
    using c1 c2 c3 by (intro conjI)
qed

subsection \<open>Switching to the service secrets manager\<close>

lemma changeProjectStackSecretDetails_fst:
  "fst (changeProjectStackSecretDetails info)
     = info\<lparr>SecretsProvider := '''', EncryptedKey := '''', EncryptionSalt := ''''\<rparr>"
  by (simp add: changeProjectStackSecretDetails_def Let_def split: prod.splits)

lemma changeProjectStackSecretDetails_snd:
  "snd (changeProjectStackSecretDetails info)
     = (SecretsProvider info \<noteq> '''' \<or> EncryptedKey info \<noteq> '''' \<or> EncryptionSalt info \<noteq> '''')"
  by (simp add: changeProjectStackSecretDetails_def Let_def split: prod.splits)

lemma NewServiceSecretsManager_loaded:
  assumes "stackName \<noteq> ''''"
      and "DetectProjectStackPath env stackName = Inr (proj, path)"
      and "LoadProjectStack env proj configFile = Inr info"
  shows "NewServiceSecretsManager env ident stackName configFile =
           (let cleared = info\<lparr>SecretsProvider := '''', EncryptedKey := '''', EncryptionSalt := ''''\<rparr>;
                manager = \<lparr>state = \<lparr>URL = client_URL env,
                                    Owner = StackIdentifier.Owner ident,
                                    Project = StackIdentifier.Project ident,
                                    Stack = StackIdentifier.Stack ident\<rparr>,
                           crypter = ident\<rparr>
            in if SecretsProvider info \<noteq> '''' \<or> EncryptedKey info \<noteq> '''' \<or> EncryptionSalt info \<noteq> ''''
               then (case SaveProjectStack env stackName cleared of
                       Some err \<Rightarrow> ([(stackName, cleared)], Returned (Inl err))
                     | None \<Rightarrow> ([(stackName, cleared)], Returned (Inr manager)))
               else ([], Returned (Inr manager)))"
proof -
  obtain i c where ic: "changeProjectStackSecretDetails info = (i, c)"
    by (cases "changeProjectStackSecretDetails info")
  have i: "i = info\<lparr>SecretsProvider := '''', EncryptedKey := '''', EncryptionSalt := ''''\<rparr>"
    using changeProjectStackSecretDetails_fst [of info] ic by simp
  have c: "c = (SecretsProvider info \<noteq> '''' \<or> EncryptedKey info \<noteq> '''' \<or> EncryptionSalt info \<noteq> '''')"
    using changeProjectStackSecretDetails_snd [of info] ic by simp
  show ?thesis
    using assms ic
    unfolding NewServiceSecretsManager_def i c
    by (simp add: Let_def)
qed

lemma resolveSecretsManager_cleared:
  assumes "SecretsProvider ps = ''''" and "EncryptionSalt ps = ''''"
  shows "resolveSecretsManager cenv s ps
           = (case getProjectStackPath cenv s of
                Inl err \<Rightarrow> Inl err
              | Inr file \<Rightarrow> DefaultSecretManager cenv s file)"
  using assms by (simp add: resolveSecretsManager_def split: sum.splits)

text \<open>
  C4. When \<open>NewServiceSecretsManager\<close> returns a manager for a stack whose configuration
  \<open>info\<close> it loaded, every write of the configuration it made stored \<open>info\<close> with
  \<open>SecretsProvider\<close>, \<open>EncryptedKey\<close> and \<open>EncryptionSalt\<close> all empty and nothing else
  changed; if one of the three was set there is exactly one such write, and it succeeded
  before the manager was returned. On the cleared descriptor the resolution of
  \<open>getStackSecretsManager\<close> reaches neither the cloud nor the passphrase branch: it
  takes the stack's default manager.
\<close>

theorem NewServiceSecretsManager_clears_previous_kind:
  assumes "DetectProjectStackPath env stackName = Inr (proj, path)"
      and "LoadProjectStack env proj configFile = Inr info"
      and "NewServiceSecretsManager env ident stackName configFile = (writes, Returned (Inr mgr))"
      and "cleared = info\<lparr>SecretsProvider := '''', EncryptedKey := '''', EncryptionSalt := ''''\<rparr>"
  shows "fst (changeProjectStackSecretDetails info) = cleared
       \<and> (\<forall>w \<in> set writes. w = (stackName, cleared))
       \<and> (SecretsProvider info \<noteq> '''' \<or> EncryptedKey info \<noteq> '''' \<or> EncryptionSalt info \<noteq> ''''
            \<longrightarrow> writes = [(stackName, cleared)] \<and> SaveProjectStack env stackName cleared = None)
       \<and> (\<forall>cenv s. resolveSecretsManager cenv s cleared
                     = (case getProjectStackPath cenv s of
                          Inl err \<Rightarrow> Inl err
                        | Inr file \<Rightarrow> DefaultSecretManager cenv s file))"
proof -
  have nonempty: "stackName \<noteq> ''''"
  proof
    assume "stackName = ''''"
    then have "snd (NewServiceSecretsManager env ident stackName configFile)
                 = Panicked ''stackName != \"\"''"
      by (simp add: NewServiceSecretsManager_def)
    with assms(3) show False by simp
  qed
  note eq = NewServiceSecretsManager_loaded [OF nonempty assms(1) assms(2), of ident]
  let ?changed = "SecretsProvider info \<noteq> '''' \<or> EncryptedKey info \<noteq> ''''
                    \<or> EncryptionSalt info \<noteq> ''''"
  have ws: "(\<forall>w \<in> set writes. w = (stackName, cleared))
            \<and> (?changed \<longrightarrow> writes = [(stackName, cleared)]
                               \<and> SaveProjectStack env stackName cleared = None)"
  proof (cases ?changed)
    case True
    show ?thesis
    proof (cases "SaveProjectStack env stackName cleared")
      case None
      have "NewServiceSecretsManager env ident stackName configFile
              = ([(stackName, cleared)],
                 Returned (Inr \<lparr>state = \<lparr>URL = client_URL env,
                                          Owner = StackIdentifier.Owner ident,
                                          Project = StackIdentifier.Project ident,
                                          Stack = StackIdentifier.Stack ident\<rparr>,
                                 crypter = ident\<rparr>))"
        unfolding eq Let_def using True None assms(4) by simp
      with assms(3) have "writes = [(stackName, cleared)]" by simp
      with None show ?thesis by simp
    next
      case (Some err)
      have "NewServiceSecretsManager env ident stackName configFile
              = ([(stackName, cleared)], Returned (Inl err))"
        unfolding eq Let_def using True Some assms(4) by simp
      with assms(3) show ?thesis by simp
    qed
  next
    case False
    have "fst (NewServiceSecretsManager env ident stackName configFile) = []"
      unfolding eq Let_def using False by simp
    with assms(3) have "writes = []" by simp
    with False show ?thesis by simp
  qed
  have f: "fst (changeProjectStackSecretDetails info) = cleared"
    unfolding assms(4) by (rule changeProjectStackSecretDetails_fst)
  have e: "SecretsProvider cleared = ''''" "EncryptionSalt cleared = ''''"
    unfolding assms(4) by simp_all
  show ?thesis
    apply (intro conjI allI)
       apply (rule f)
      apply (rule ws [THEN conjunct1])
     apply (rule ws [THEN conjunct2])
    apply (rule resolveSecretsManager_cleared [OF e])
    done
qed

text \<open>A stack configured with a passphrase salt, switched to the service.\<close>

theorem NewServiceSecretsManager_clears_previous_kind_witness:
  "NewServiceSecretsManager (service_env_example ps_example_passphrase) ident_example
       ''prod'' ''Pulumi.prod.yaml''
     = ([(''prod'', \<lparr>SecretsProvider = '''', EncryptedKey = '''', EncryptionSalt = '''',
                     Config = [(''aws:region'', ''us-east-1'')]\<rparr>)],
        Returned (Inr \<lparr>state = \<lparr>URL = ''https://api.pulumi.com'', Owner = ''acme'',
                                 Project = ''infra'', Stack = ''prod''\<rparr>,
                        crypter = ident_example\<rparr>))
   \<and> fst (changeProjectStackSecretDetails ps_example_passphrase)
       = \<lparr>SecretsProvider = '''', EncryptedKey = '''', EncryptionSalt = '''',
          Config = [(''aws:region'', ''us-east-1'')]\<rparr>
   \<and> resolveSecretsManager (crypto_env_example ps_example_passphrase) ''prod''
        \<lparr>SecretsProvider = '''', EncryptedKey = '''', EncryptionSalt = '''',
         Config = [(''aws:region'', ''us-east-1'')]\<rparr>
       = Inr ''default''"
proof -
  let ?env = "service_env_example ps_example_passphrase"
  let ?cleared = "\<lparr>SecretsProvider = '''', EncryptedKey = '''', EncryptionSalt = '''',
                   Config = [(''aws:region'', ''us-east-1'')]\<rparr>"
  let ?mgr = "\<lparr>state = \<lparr>URL = ''https://api.pulumi.com'', Owner = ''acme'',
                          Project = ''infra'', Stack = ''prod''\<rparr>,
                 crypter = ident_example\<rparr>"
  have d: "DetectProjectStackPath ?env ''prod'' = Inr (\<lparr>Name = ''infra''\<rparr>, ''Pulumi.prod.yaml'')"
    by (simp add: service_env_example_def)
  have l: "LoadProjectStack ?env \<lparr>Name = ''infra''\<rparr> ''Pulumi.prod.yaml'' = Inr ps_example_passphrase"
    by (simp add: service_env_example_def)
  have n: "NewServiceSecretsManager ?env ident_example ''prod'' ''Pulumi.prod.yaml''
             = ([(''prod'', ?cleared)], Returned (Inr ?mgr))"
    by (simp add: NewServiceSecretsManager_def service_env_example_def ps_example_passphrase_def
                  changeProjectStackSecretDetails_def ident_example_def)
  have c: "?cleared = ps_example_passphrase\<lparr>SecretsProvider := '''', EncryptedKey := '''',
                                             EncryptionSalt := ''''\<rparr>"
    by (simp add: ps_example_passphrase_def)
  note t = NewServiceSecretsManager_clears_previous_kind [OF d l n c]
  have f: "fst (changeProjectStackSecretDetails ps_example_passphrase) = ?cleared"
    using t by (rule conjunct1)
  have r: "resolveSecretsManager (crypto_env_example ps_example_passphrase) ''prod'' ?cleared
             = (case getProjectStackPath (crypto_env_example ps_example_passphrase) ''prod'' of
                  Inl err \<Rightarrow> Inl err
                | Inr file \<Rightarrow> DefaultSecretManager (crypto_env_example ps_example_passphrase) ''prod'' file)"
    by (rule t [THEN conjunct2, THEN conjunct2, THEN conjunct2, rule_format])
  have r': "resolveSecretsManager (crypto_env_example ps_example_passphrase) ''prod'' ?cleared
             = Inr ''default''"
    unfolding r by (simp add: crypto_env_example_def)
  show ?thesis
    using n f r' by (intro conjI)
qed

text \<open>
  C10. Once the stack's configuration \<open>info\<close> is loaded, \<open>NewServiceSecretsManager\<close>
  writes the configuration file exactly when one of \<open>SecretsProvider\<close>,
  \<open>EncryptedKey\<close> and \<open>EncryptionSalt\<close> is not empty, and then once, with the three
  cleared; when all three are empty it makes no write. It never writes in any other
  case: a write means the configuration was loaded with one of the three set.
\<close>

theorem NewServiceSecretsManager_saves_only_on_change:
  "(stackName \<noteq> '''' \<and> DetectProjectStackPath env stackName = Inr (proj, path)
      \<and> LoadProjectStack env proj configFile = Inr info
    \<longrightarrow> fst (NewServiceSecretsManager env ident stackName configFile)
          = (if SecretsProvider info = '''' \<and> EncryptedKey info = '''' \<and> EncryptionSalt info = ''''
             then []
             else [(stackName, info\<lparr>SecretsProvider := '''', EncryptedKey := '''',
                                     EncryptionSalt := ''''\<rparr>)]))
   \<and> (fst (NewServiceSecretsManager env ident stackName configFile) \<noteq> []
    \<longrightarrow> (\<exists>proj' path' info'.
            DetectProjectStackPath env stackName = Inr (proj', path')
          \<and> LoadProjectStack env proj' configFile = Inr info'
          \<and> \<not> (SecretsProvider info' = '''' \<and> EncryptedKey info' = ''''
                \<and> EncryptionSalt info' = '''')))"
proof (intro conjI impI)
  assume a: "stackName \<noteq> '''' \<and> DetectProjectStackPath env stackName = Inr (proj, path)
      \<and> LoadProjectStack env proj configFile = Inr info"
  show "fst (NewServiceSecretsManager env ident stackName configFile)
          = (if SecretsProvider info = '''' \<and> EncryptedKey info = '''' \<and> EncryptionSalt info = ''''
             then []
             else [(stackName, info\<lparr>SecretsProvider := '''', EncryptedKey := '''',
                                     EncryptionSalt := ''''\<rparr>)])"
    using a NewServiceSecretsManager_loaded [of stackName env proj path configFile info ident]
    by (auto simp: Let_def split: option.splits)
next
  assume w: "fst (NewServiceSecretsManager env ident stackName configFile) \<noteq> []"
  have nonempty: "stackName \<noteq> ''''"
    using w by (auto simp: NewServiceSecretsManager_def)
  obtain proj' path' where d: "DetectProjectStackPath env stackName = Inr (proj', path')"
    using w nonempty by (auto simp: NewServiceSecretsManager_def split: sum.splits)
  obtain info' where l: "LoadProjectStack env proj' configFile = Inr info'"
    using w nonempty d by (auto simp: NewServiceSecretsManager_def split: sum.splits)
  have "\<not> (SecretsProvider info' = '''' \<and> EncryptedKey info' = '''' \<and> EncryptionSalt info' = '''')"
    using w NewServiceSecretsManager_loaded [OF nonempty d l, of ident]
    by (auto simp: Let_def split: option.splits)
  then show "\<exists>proj' path' info'.
            DetectProjectStackPath env stackName = Inr (proj', path')
          \<and> LoadProjectStack env proj' configFile = Inr info'
          \<and> \<not> (SecretsProvider info' = '''' \<and> EncryptedKey info' = ''''
                \<and> EncryptionSalt info' = '''')"
    using d l by blast
qed

text \<open>
  A stack whose three fields are empty is not saved; one that still names a KMS provider
  is saved once.
\<close>

theorem NewServiceSecretsManager_saves_only_on_change_witness:
  "fst (NewServiceSecretsManager (service_env_example ps_example_default) ident_example
          ''prod'' ''Pulumi.prod.yaml'') = []
   \<and> fst (NewServiceSecretsManager (service_env_example ps_example_cloud) ident_example
          ''prod'' ''Pulumi.prod.yaml'')
       = [(''prod'', \<lparr>SecretsProvider = '''', EncryptedKey = '''', EncryptionSalt = '''',
                      Config = [(''aws:region'', ''us-east-1'')]\<rparr>)]"
proof -
  have d: "DetectProjectStackPath (service_env_example ps) ''prod''
             = Inr (\<lparr>Name = ''infra''\<rparr>, ''Pulumi.prod.yaml'')" for ps
    by (simp add: service_env_example_def)
  have l: "LoadProjectStack (service_env_example ps) \<lparr>Name = ''infra''\<rparr> ''Pulumi.prod.yaml'' = Inr ps" for ps
    by (simp add: service_env_example_def)
  have n: "''prod'' \<noteq> ''''"
    by simp
  have h: "''prod'' \<noteq> ''''
             \<and> DetectProjectStackPath (service_env_example ps) ''prod''
                 = Inr (\<lparr>Name = ''infra''\<rparr>, ''Pulumi.prod.yaml'')
             \<and> LoadProjectStack (service_env_example ps) \<lparr>Name = ''infra''\<rparr> ''Pulumi.prod.yaml''
                 = Inr ps" for ps
    using n d l by blast
  note t1 = NewServiceSecretsManager_saves_only_on_change
              [THEN conjunct1, rule_format, OF h, of ps_example_default ident_example]
  note t2 = NewServiceSecretsManager_saves_only_on_change
              [THEN conjunct1, rule_format, OF h, of ps_example_cloud ident_example]
  have c1: "fst (NewServiceSecretsManager (service_env_example ps_example_default) ident_example
                   ''prod'' ''Pulumi.prod.yaml'') = []"
    unfolding t1 by (simp add: ps_example_default_def)
  have c2: "fst (NewServiceSecretsManager (service_env_example ps_example_cloud) ident_example
                   ''prod'' ''Pulumi.prod.yaml'')
              = [(''prod'', \<lparr>SecretsProvider = '''', EncryptedKey = '''', EncryptionSalt = '''',
                             Config = [(''aws:region'', ''us-east-1'')]\<rparr>)]"
    unfolding t2 by (simp add: ps_example_cloud_def)
  show ?thesis
    using c1 c2 by (intro conjI)
qed

subsection \<open>The service crypter\<close>

lemma decodeSecrets_first_malformed:
  assumes "\<forall>v \<in> set pre. \<exists>ct. DecodeString enc v = Inr ct"
      and "DecodeString enc bad = Inl err"
  shows "decodeSecrets enc acc (pre @ bad # post) = Inl err"
  using assms
proof (induction pre arbitrary: acc)
  case Nil
  then show ?case by simp
next
  case (Cons v pre)
  then obtain ct where "DecodeString enc v = Inr ct" by auto
  with Cons show ?case by simp
qed

lemma decodeSecrets_all_decoded:
  assumes "decodeSecrets enc acc vals = Inr cts"
  shows "\<exists>new. cts = acc @ new \<and> map (DecodeString enc) vals = map Inr new"
  using assms
proof (induction vals arbitrary: acc)
  case Nil
  then show ?case by simp
next
  case (Cons v vals)
  then obtain ct where ct: "DecodeString enc v = Inr ct"
    by (cases "DecodeString enc v") auto
  with Cons.prems have "decodeSecrets enc (acc @ [ct]) vals = Inr cts" by simp
  from Cons.IH [OF this] obtain new
    where "cts = (acc @ [ct]) @ new" and "map (DecodeString enc) vals = map Inr new"
    by blast
  then have "cts = acc @ (ct # new) \<and> map (DecodeString enc) (v # vals) = map Inr (ct # new)"
    using ct by simp
  then show ?case by blast
qed

text \<open>
  C8. \<open>DecryptValue\<close> decodes its input as base64 first: an input that does not decode
  gives the decoder's error, and a plaintext only comes from decrypting the decoded
  bytes. \<open>BulkDecrypt\<close> returns the error of the first entry that does not decode,
  whatever the service would answer, and when it returns a mapping every entry decoded
  and the mapping is the service's answer for the decoded entries in order.
  \<open>EncryptValue\<close> returns the base64 encoding of the ciphertext the service produced,
  or the service's error.
\<close>

theorem serviceCrypter_base64:
  "(DecodeString enc s = Inl err \<longrightarrow> DecryptValue enc c s = Inl err)
   \<and> (DecryptValue enc c s = Inr plain
        \<longrightarrow> (\<exists>ct. DecodeString enc s = Inr ct \<and> client_DecryptValue c ct = Inr plain))
   \<and> ((\<forall>v \<in> set pre. \<exists>ct. DecodeString enc v = Inr ct) \<and> DecodeString enc bad = Inl err
        \<longrightarrow> BulkDecrypt enc c (pre @ bad # post) = Inl err)
   \<and> (BulkDecrypt enc c secrets = Inr m
        \<longrightarrow> (\<exists>cts. map (DecodeString enc) secrets = map Inr cts
                  \<and> client_BulkDecryptValue c cts = Inr m))
   \<and> EncryptValue enc c plaintext
        = (case client_EncryptValue c plaintext of
             Inl e \<Rightarrow> Inl e
           | Inr ciphertext \<Rightarrow> Inr (EncodeToString enc ciphertext))"
proof (intro conjI impI)
  assume "DecodeString enc s = Inl err"
  then show "DecryptValue enc c s = Inl err"
    by (simp add: DecryptValue_def)
next
  assume "DecryptValue enc c s = Inr plain"
  then show "\<exists>ct. DecodeString enc s = Inr ct \<and> client_DecryptValue c ct = Inr plain"
    by (auto simp: DecryptValue_def split: sum.splits)
next
  assume "(\<forall>v \<in> set pre. \<exists>ct. DecodeString enc v = Inr ct) \<and> DecodeString enc bad = Inl err"
  then have "decodeSecrets enc [] (pre @ bad # post) = Inl err"
    using decodeSecrets_first_malformed [of pre enc bad err "[]" post] by blast
  then show "BulkDecrypt enc c (pre @ bad # post) = Inl err"
    by (simp add: BulkDecrypt_def)
next
  assume a: "BulkDecrypt enc c secrets = Inr m"
  then obtain cts where d: "decodeSecrets enc [] secrets = Inr cts"
    by (cases "decodeSecrets enc [] secrets") (auto simp: BulkDecrypt_def)
  with a obtain dl where b: "client_BulkDecryptValue c cts = Inr dl"
    by (cases "client_BulkDecryptValue c cts") (auto simp: BulkDecrypt_def)
  have "(\<lambda>nm. map_option (\<lambda>v. v) (dl nm)) = dl"
    by (rule ext) (simp add: option.map_ident)
  with a d b have "m = dl"
    by (simp add: BulkDecrypt_def)
  moreover from decodeSecrets_all_decoded [OF d]
  have "map (DecodeString enc) secrets = map Inr cts" by simp
  ultimately show "\<exists>cts. map (DecodeString enc) secrets = map Inr cts
                     \<and> client_BulkDecryptValue c cts = Inr m"
    using b by blast
next
  show "EncryptValue enc c plaintext
        = (case client_EncryptValue c plaintext of
             Inl e \<Rightarrow> Inl e
           | Inr ciphertext \<Rightarrow> Inr (EncodeToString enc ciphertext))"
    by (simp add: EncryptValue_def)
qed

text \<open>
  A ciphertext with a character outside the alphabet is refused, alone and as the second
  of three entries after one that decodes; a well-formed one is decrypted.
\<close>

theorem serviceCrypter_base64_witness:
  "DecryptValue base64_example serviceCrypter_example ''a*k='' = Inl (Errorf ''illegal base64 data'')
   \<and> BulkDecrypt base64_example serviceCrypter_example [''aGk='', ''a*k='', ''aWg='']
       = Inl (Errorf ''illegal base64 data'')
   \<and> DecryptValue base64_example serviceCrypter_example ''aGk='' = Inr ''ih''
   \<and> EncryptValue base64_example serviceCrypter_example ''ih'' = Inr ''aGk=''"
proof -
  have bad: "DecodeString base64_example ''a*k='' = Inl (Errorf ''illegal base64 data'')"
    by (simp add: base64_example_def)
  have good: "\<forall>v \<in> set [''aGk='']. \<exists>ct. DecodeString base64_example v = Inr ct"
    by (simp add: base64_example_def)
  note t = serviceCrypter_base64
             [of base64_example "''a*k=''" "Errorf ''illegal base64 data''" serviceCrypter_example
                 "''ih''" "[''aGk='']" "''a*k=''" "[''aWg='']" "[''aGk='']" Map.empty "''ih''"]
  have c1: "DecryptValue base64_example serviceCrypter_example ''a*k=''
              = Inl (Errorf ''illegal base64 data'')"
    using t bad by blast
  have c2: "BulkDecrypt base64_example serviceCrypter_example ([''aGk=''] @ ''a*k='' # [''aWg=''])
              = Inl (Errorf ''illegal base64 data'')"
    using t bad good by blast
  have c3: "DecryptValue base64_example serviceCrypter_example ''aGk='' = Inr ''ih''"
    by (simp add: DecryptValue_def base64_example_def serviceCrypter_example_def)
  have c4: "EncryptValue base64_example serviceCrypter_example ''ih'' = Inr ''aGk=''"
    by (simp add: EncryptValue_def base64_example_def serviceCrypter_example_def)
  show ?thesis
    using c1 c2 c3 c4 by simp
qed

subsection \<open>History and backup after an update\<close>

lemma apply_save_eq:
  "apply_save env kind ref opr opts config (plan, changes, updateRes) =
     (let info = \<lparr>Kind = kind, StartTime = time_start env, Message = M_Message opr,
                   Environment = M_Environment opr, TargetConfig = config,
                   Result = (if updateRes = None then SucceededResult else FailedResult),
                   EndTime = time_finish env, Changes = changes\<rparr>
      in (if DryRun opts then [] else [AddToHistory info, BackupStack],
          plan, changes,
          (case updateRes of
             Some e \<Rightarrow> Some e
           | None \<Rightarrow>
               if DryRun opts then None
               else (case addToHistory env ref info of
                       Some e \<Rightarrow> Some (Wrapf ''saving update info'' e)
                     | None \<Rightarrow>
                         (case backupStack env ref of
                            Some e \<Rightarrow> Some (Wrapf ''saving backup'' e)
                          | None \<Rightarrow> None)))))"
  by (cases updateRes; cases "DryRun opts")
     (simp_all add: apply_save_def Let_def split: option.splits)

text \<open>
  C1, as the code has it. An \<open>apply\<close> that returns either left before the engine ran,
  with an error and nothing attempted, or ran the engine once and then, exactly when
  the options are not a dry run, appended to the history and backed up the checkpoint,
  in this order and whether the engine reported success or failure (the history record
  says which). Its result is the engine's error if the engine failed; otherwise the
  wrapped error of the history append if that failed; otherwise the wrapped error of the
  backup if that failed; otherwise nil.
\<close>

theorem apply_history_and_backup:
  assumes "localBackend_apply env kind ref opr opts = (events, Returned (plan, changes, res))"
  shows "(events = [] \<and> res \<noteq> None)
       \<or> (\<exists>fn dry keep config eplan updateRes info.
             newUpdate env ref opr = Inr config
           \<and> engine_dispatch kind opts = Some (fn, dry, keep)
           \<and> engine env fn dry = (eplan, changes, updateRes)
           \<and> info = \<lparr>Kind = kind, StartTime = time_start env, Message = M_Message opr,
                       Environment = M_Environment opr, TargetConfig = config,
                       Result = (if updateRes = None then SucceededResult else FailedResult),
                       EndTime = time_finish env, Changes = changes\<rparr>
           \<and> events = EngineCall fn dry # (if DryRun opts then [] else [AddToHistory info, BackupStack])
           \<and> res = (case updateRes of
                       Some e \<Rightarrow> Some e
                     | None \<Rightarrow>
                         if DryRun opts then None
                         else (case addToHistory env ref info of
                                 Some e \<Rightarrow> Some (Wrapf ''saving update info'' e)
                               | None \<Rightarrow>
                                   (case backupStack env ref of
                                      Some e \<Rightarrow> Some (Wrapf ''saving backup'' e)
                                    | None \<Rightarrow> None))))"
proof (cases "Validate env ref")
  case (Some err)
  then have "localBackend_apply env kind ref opr opts = ([], Returned (None, [], Some err))"
    by (simp add: localBackend_apply_def)
  with assms have "events = [] \<and> res = Some err" by simp
  then show ?thesis by simp
next
  case None
  show ?thesis
  proof (cases "currentProjectContradictsWorkspace env ref")
    case True
    with None have "\<exists>err. localBackend_apply env kind ref opr opts = ([], Returned (None, [], Some err))"
      by (simp add: localBackend_apply_def)
    with assms have "events = [] \<and> res \<noteq> None" by auto
    then show ?thesis by simp
  next
    case False
    show ?thesis
    proof (cases "newUpdate env ref opr")
      case (Inl err)
      with None False
      have "localBackend_apply env kind ref opr opts = ([], Returned (None, [], Some err))"
        by (simp add: localBackend_apply_def)
      with assms have "events = [] \<and> res = Some err" by simp
      then show ?thesis by simp
    next
      case (Inr config)
      show ?thesis
      proof (cases "engine_dispatch kind opts")
        case None
        with \<open>Validate env ref = None\<close> False Inr
        have "snd (localBackend_apply env kind ref opr opts) = Panicked ''Unrecognized update kind''"
          by (simp add: localBackend_apply_def)
        with assms show ?thesis by simp
      next
        case (Some d)
        obtain fn dry keep where d: "d = (fn, dry, keep)"
          by (cases d)
        obtain eplan echanges updateRes where e: "engine env fn dry = (eplan, echanges, updateRes)"
          by (cases "engine env fn dry")
        let ?info = "\<lparr>Kind = kind, StartTime = time_start env, Message = M_Message opr,
                       Environment = M_Environment opr, TargetConfig = config,
                       Result = (if updateRes = None then SucceededResult else FailedResult),
                       EndTime = time_finish env, Changes = echanges\<rparr>"
        have r: "localBackend_apply env kind ref opr opts =
                   (case apply_save env kind ref opr opts config
                           (if keep then eplan else None, echanges, updateRes) of
                      (evs, res') \<Rightarrow> (EngineCall fn dry # evs, Returned res'))"
          using \<open>Validate env ref = None\<close> False Inr Some d e
          by (simp add: localBackend_apply_def)
        have c: "changes = echanges"
          using assms unfolding r apply_save_eq Let_def by simp
        have ev: "events = EngineCall fn dry # (if DryRun opts then [] else [AddToHistory ?info, BackupStack])"
          using assms unfolding r apply_save_eq Let_def by simp
        have rs: "res = (case updateRes of
                       Some e \<Rightarrow> Some e
                     | None \<Rightarrow>
                         if DryRun opts then None
                         else (case addToHistory env ref ?info of
                                 Some e \<Rightarrow> Some (Wrapf ''saving update info'' e)
                               | None \<Rightarrow>
                                   (case backupStack env ref of
                                      Some e \<Rightarrow> Some (Wrapf ''saving backup'' e)
                                    | None \<Rightarrow> None)))"
          using assms unfolding r apply_save_eq Let_def by simp
        show ?thesis
          apply (rule disjI2)
          apply (rule exI [of _ fn])
          apply (rule exI [of _ dry])
          apply (rule exI [of _ keep])
          apply (rule exI [of _ config])
          apply (rule exI [of _ eplan])
          apply (rule exI [of _ updateRes])
          apply (rule exI [of _ ?info])
          using Inr Some d e c ev rs
          apply simp
          done
      qed
    qed
  qed
qed

text \<open>
  An update whose engine run succeeds while the history and the backup both fail to
  write: both were attempted after the engine, and the error returned is the history's.
\<close>

theorem apply_history_and_backup_witness:
  "localBackend_apply
       (apply_env_example None (Some (Errorf ''history write failed''))
                          (Some (Errorf ''backup write failed'')))
       UpdateUpdate \<lparr>name = ''prod'', project = ''infra''\<rparr>
       \<lparr>M_Message = ''deploy'', M_Environment = []\<rparr> \<lparr>DryRun = False, ShowLink = True\<rparr>
     = ([EngineCall engine_Update False,
         AddToHistory \<lparr>Kind = UpdateUpdate, StartTime = 100, Message = ''deploy'',
                        Environment = [], TargetConfig = [(''aws:region'', ''us-east-1'')],
                        Result = SucceededResult, EndTime = 160, Changes = [(''create'', 1)]\<rparr>,
         BackupStack],
        Returned (None, [(''create'', 1)],
                  Some (Wrapf ''saving update info'' (Errorf ''history write failed''))))"
proof -
  have n: "localBackend_apply
       (apply_env_example None (Some (Errorf ''history write failed''))
                          (Some (Errorf ''backup write failed'')))
       UpdateUpdate \<lparr>name = ''prod'', project = ''infra''\<rparr>
       \<lparr>M_Message = ''deploy'', M_Environment = []\<rparr> \<lparr>DryRun = False, ShowLink = True\<rparr>
     = ([EngineCall engine_Update False,
         AddToHistory \<lparr>Kind = UpdateUpdate, StartTime = 100, Message = ''deploy'',
                        Environment = [], TargetConfig = [(''aws:region'', ''us-east-1'')],
                        Result = SucceededResult, EndTime = 160, Changes = [(''create'', 1)]\<rparr>,
         BackupStack],
        Returned (None, [(''create'', 1)],
                  Some (Wrapf ''saving update info'' (Errorf ''history write failed''))))"
    by (simp add: localBackend_apply_def apply_env_example_def
                  currentProjectContradictsWorkspace_def engine_dispatch_def apply_save_def)
  show ?thesis
    using apply_history_and_backup [OF n] n by simp
qed

text \<open>
  History and backup do not wait for the engine to report success. On an update that is
  not a dry run and whose engine run fails, the history append and the backup are
  attempted all the same, the history record carrying the failed result, and the
  engine's error is returned.
\<close>

theorem apply_history_after_failed_update:
  "localBackend_apply (apply_env_example (Some (Errorf ''update failed'')) None None)
       UpdateUpdate \<lparr>name = ''prod'', project = ''infra''\<rparr>
       \<lparr>M_Message = ''deploy'', M_Environment = []\<rparr> \<lparr>DryRun = False, ShowLink = True\<rparr>
     = ([EngineCall engine_Update False,
         AddToHistory \<lparr>Kind = UpdateUpdate, StartTime = 100, Message = ''deploy'',
                        Environment = [], TargetConfig = [(''aws:region'', ''us-east-1'')],
                        Result = FailedResult, EndTime = 160, Changes = [(''create'', 1)]\<rparr>,
         BackupStack],
        Returned (None, [(''create'', 1)], Some (Errorf ''update failed'')))"
  by (simp add: localBackend_apply_def apply_env_example_def
                currentProjectContradictsWorkspace_def engine_dispatch_def apply_save_def)

subsection \<open>The layout version at construction\<close>

lemma New_reaches_store:
  assumes "IsFileStateBackendURL env origURL"
      and "massageBlobPath env origURL = Inr u"
      and "url_Parse env u = Inr p"
      and "Scheme p = gcsblob_Scheme \<longrightarrow> GoogleCredentialsMux env = None"
      and "OpenBucket env u = Inr bk0"
      and "uuid_NewV4 env = Inr lockId"
  shows "New env origURL proj =
           (case ensurePulumiMeta (New_subDir env u p bk0) of
              Inl err \<Rightarrow> Inl err
            | Inr pulumiState \<Rightarrow>
                New_store (storage_faults env)
                          \<lparr>originalURL = origURL, url = u, bucket = New_subDir env u p bk0,
                           lockID = lockId, gzip = gzipCompression env, currentProject = proj,
                           store = legacyReferenceStore\<rparr>
                          pulumiState)"
  using assms by (simp add: New_def split: sum.splits)

lemma New_store_legacy:
  "Version st = 0 \<Longrightarrow> \<exists>b w. New_store fs backend st = Inr (b, w) \<and> store b = legacyReferenceStore"
  by (simp add: New_store_def)

lemma New_store_project:
  "Version st = 1 \<Longrightarrow> \<exists>b w. New_store fs backend st = Inr (b, w) \<and> store b = projectReferenceStore"
  by (simp add: New_store_def split: sum.splits)

lemma New_store_unsupported:
  "Version st \<noteq> 0 \<Longrightarrow> Version st \<noteq> 1 \<Longrightarrow> New_store fs backend st = Inl (UnsupportedVersion (Version st))"
  by (simp add: New_store_def)

text \<open>
  C9. When \<open>New\<close> gets as far as reading the layout manifest of the bucket it opened
  (the URL is accepted, the bucket opens, a lock id is drawn): with no manifest or a
  manifest of version 0 it returns a backend on the legacy reference store; with a
  manifest of version 1 it returns a backend on the project reference store; with a
  manifest of any other version it returns the unsupported-version error and no backend.
\<close>

theorem New_layout_version:
  assumes "IsFileStateBackendURL env origURL"
      and "massageBlobPath env origURL = Inr u"
      and "url_Parse env u = Inr p"
      and "Scheme p = gcsblob_Scheme \<longrightarrow> GoogleCredentialsMux env = None"
      and "OpenBucket env u = Inr bk0"
      and "uuid_NewV4 env = Inr lockId"
      and "bk = New_subDir env u p bk0"
  shows "(map_of bk MetaFile = None \<or> map_of bk MetaFile = Some (MetaObject 0)
            \<longrightarrow> (\<exists>b w. New env origURL proj = Inr (b, w) \<and> store b = legacyReferenceStore))
       \<and> (map_of bk MetaFile = Some (MetaObject 1)
            \<longrightarrow> (\<exists>b w. New env origURL proj = Inr (b, w) \<and> store b = projectReferenceStore))
       \<and> (\<forall>v. map_of bk MetaFile = Some (MetaObject v) \<and> v \<noteq> 0 \<and> v \<noteq> 1
            \<longrightarrow> New env origURL proj = Inl (UnsupportedVersion v))"
proof -
  note eq = New_reaches_store [OF assms(1-6), of proj, folded assms(7)]
  have legacy: "\<exists>b w. New env origURL proj = Inr (b, w) \<and> store b = legacyReferenceStore"
    if "map_of bk MetaFile = None \<or> map_of bk MetaFile = Some (MetaObject 0)"
  proof -
    from that have "ensurePulumiMeta bk = Inr \<lparr>Version = 0\<rparr>"
      by (auto simp: ensurePulumiMeta_def)
    then show ?thesis
      unfolding eq using New_store_legacy [of "\<lparr>Version = 0\<rparr>"] by simp
  qed
  have proj: "\<exists>b w. New env origURL proj = Inr (b, w) \<and> store b = projectReferenceStore"
    if "map_of bk MetaFile = Some (MetaObject 1)"
  proof -
    from that have "ensurePulumiMeta bk = Inr \<lparr>Version = 1\<rparr>"
      by (simp add: ensurePulumiMeta_def)
    then show ?thesis
      unfolding eq using New_store_project [of "\<lparr>Version = 1\<rparr>"] by simp
  qed
  have other: "New env origURL proj = Inl (UnsupportedVersion v)"
    if "map_of bk MetaFile = Some (MetaObject v) \<and> v \<noteq> 0 \<and> v \<noteq> 1" for v
  proof -
    from that have "ensurePulumiMeta bk = Inr \<lparr>Version = v\<rparr>"
      by (simp add: ensurePulumiMeta_def)
    then show ?thesis
      unfolding eq using that New_store_unsupported [of "\<lparr>Version = v\<rparr>"] by simp
  qed
  show ?thesis
    using legacy proj other by blast
qed

text \<open>
  A bucket with no manifest and one legacy stack, the same bucket with a manifest of
  version 1 (the legacy stack is warned about), and with a manifest of version 2.
\<close>

theorem New_layout_version_witness:
  "map_option (\<lambda>(b, w). (store b, w))
       (case New (New_env_example [(StackFile '''' ''dev'', CheckpointObject \<lparr>Latest = None\<rparr>)])
                 ''file:///state'' None of Inl e \<Rightarrow> None | Inr r \<Rightarrow> Some r)
     = Some (legacyReferenceStore, [])
   \<and> map_option (\<lambda>(b, w). (store b, w))
       (case New (New_env_example [(MetaFile, MetaObject 1),
                                   (StackFile '''' ''dev'', CheckpointObject \<lparr>Latest = None\<rparr>)])
                 ''file:///state'' None of Inl e \<Rightarrow> None | Inr r \<Rightarrow> Some r)
     = Some (projectReferenceStore, [''dev''])
   \<and> New (New_env_example [(MetaFile, MetaObject 2)]) ''file:///state'' None
     = Inl (UnsupportedVersion 2)"
proof -
  have a1: "IsFileStateBackendURL (New_env_example k) ''file:///state''" for k
    by (simp add: New_env_example_def)
  have a2: "massageBlobPath (New_env_example k) ''file:///state'' = Inr ''file:///state''" for k
    by (simp add: New_env_example_def)
  have a3: "url_Parse (New_env_example k) ''file:///state'' = Inr \<lparr>Scheme = ''file'', Path = ''/state''\<rparr>" for k
    by (simp add: New_env_example_def)
  have a4: "Scheme \<lparr>Scheme = ''file'', Path = ''/state''\<rparr> = gcsblob_Scheme
              \<longrightarrow> GoogleCredentialsMux (New_env_example k) = None" for k
    by (simp add: New_env_example_def)
  have a5: "OpenBucket (New_env_example k) ''file:///state'' = Inr k" for k
    by (simp add: New_env_example_def)
  have a6: "uuid_NewV4 (New_env_example k) = Inr ''lock-1''" for k
    by (simp add: New_env_example_def)
  have a7: "k = New_subDir (New_env_example k) ''file:///state'' \<lparr>Scheme = ''file'', Path = ''/state''\<rparr> k" for k
    by (simp add: New_subDir_def New_env_example_def strings_HasPrefix_def FilePathPrefix_def)
  note t = New_layout_version [OF a1 a2 a3 a4 a5 a6 a7, of _ None]
  have v2: "map_of [(MetaFile, MetaObject 2)] MetaFile = Some (MetaObject 2) \<and> (2::int) \<noteq> 0 \<and> (2::int) \<noteq> 1"
    by simp
  have c3: "New (New_env_example [(MetaFile, MetaObject 2)]) ''file:///state'' None
              = Inl (UnsupportedVersion 2)"
    by (rule t [THEN conjunct2, THEN conjunct2, rule_format, OF v2])
  have c1: "map_option (\<lambda>(b, w). (store b, w))
       (case New (New_env_example [(StackFile '''' ''dev'', CheckpointObject \<lparr>Latest = None\<rparr>)])
                 ''file:///state'' None of Inl e \<Rightarrow> None | Inr r \<Rightarrow> Some r)
     = Some (legacyReferenceStore, [])"
    by (simp add: New_def New_env_example_def New_subDir_def strings_HasPrefix_def
                  FilePathPrefix_def gcsblob_Scheme_def ensurePulumiMeta_def New_store_def)
  have c2: "map_option (\<lambda>(b, w). (store b, w))
       (case New (New_env_example [(MetaFile, MetaObject 1),
                                   (StackFile '''' ''dev'', CheckpointObject \<lparr>Latest = None\<rparr>)])
                 ''file:///state'' None of Inl e \<Rightarrow> None | Inr r \<Rightarrow> Some r)
     = Some (projectReferenceStore, [''dev''])"
    by (simp add: New_def New_env_example_def New_subDir_def strings_HasPrefix_def
                  FilePathPrefix_def gcsblob_Scheme_def ensurePulumiMeta_def New_store_def
                  legacy_ListReferences_def List.map_filter_def faults_none_def)
  show ?thesis
    using c1 c2 c3 by (intro conjI)
qed

subsection \<open>Cancelling the current update\<close>

text \<open>
  When the listing is of markers that are all still in the bucket, each listed once, the
  loop deletes every one of them and reports no error.
\<close>

lemma CancelCurrentUpdate_files_present:
  assumes "distinct ks" and "set ks \<subseteq> fst ` set bk"
  shows "CancelCurrentUpdate_files bk (map (\<lambda>k. \<lparr>Key = k, IsDir = False\<rparr>) ks)
           = (filter (\<lambda>(k, obj). k \<notin> set ks) bk, None)"
  using assms
proof (induction ks arbitrary: bk)
  case Nil
  then show ?case by simp
next
  case (Cons k ks)
  from Cons.prems have "k \<in> fst ` set bk" by simp
  then obtain obj where obj: "map_of bk k = Some obj"
    by (cases "map_of bk k") (auto simp: map_of_eq_None_iff)
  have d: "AList.delete k bk = filter (\<lambda>(k', obj). k' \<noteq> k) bk"
    by (simp add: AList.delete_eq) (metis (mono_tags, lifting) case_prod_beta' filter_cong)
  have "set ks \<subseteq> fst ` set (AList.delete k bk)"
    using Cons.prems unfolding d by force
  with Cons.IH [of "AList.delete k bk"] Cons.prems
  have "CancelCurrentUpdate_files (AList.delete k bk) (map (\<lambda>k. \<lparr>Key = k, IsDir = False\<rparr>) ks)
          = (filter (\<lambda>(k', obj). k' \<notin> set ks) (AList.delete k bk), None)"
    by simp
  moreover have "filter (\<lambda>(k', obj). k' \<notin> set ks) (AList.delete k bk)
                   = filter (\<lambda>(k', obj). k' \<notin> set (k # ks)) bk"
    unfolding d by (induction bk) auto
  ultimately show ?case
    using obj by (simp add: bucket_Delete_def)
qed

lemma lockMarkers_filter_out:
  "lockMarkers (filter (\<lambda>(k, obj). k \<notin> set (lockMarkers bk fq)) bk) fq = []"
  by (force simp: lockMarkers_def filter_empty_conv split: Key.splits)

lemma CancelCurrentUpdate_undisturbed:
  assumes "distinct (map fst (bucket b))"
  shows "snd (CancelCurrentUpdate b (listBucket_stackLockDir (bucket b) fq)) = None
       \<and> lockMarkers (bucket (fst (CancelCurrentUpdate b (listBucket_stackLockDir (bucket b) fq)))) fq = []"
proof -
  have d: "distinct (lockMarkers (bucket b) fq)"
    using assms by (simp add: lockMarkers_def)
  have s: "set (lockMarkers (bucket b) fq) \<subseteq> fst ` set (bucket b)"
    by (auto simp: lockMarkers_def)
  show ?thesis
    using CancelCurrentUpdate_files_present [OF d s] lockMarkers_filter_out [of "bucket b" fq]
    by (simp add: CancelCurrentUpdate_def listBucket_stackLockDir_def)
qed

lemma CancelCurrentUpdate_no_lock:
  "CancelCurrentUpdate b (Inr []) = (b, None)"
  "CancelCurrentUpdate b (Inl (GCError NotFound)) = (b, None)"
  by (simp_all add: CancelCurrentUpdate_def gcerrors_Code_def)

text \<open>
  C6. The stack \<open>prod\<close> had two lock markers when its lock directory was listed; the
  owner of the first removed it before \<open>CancelCurrentUpdate\<close> came to delete it. The
  delete of the first marker reports \<open>NotFound\<close>, \<open>CancelCurrentUpdate\<close> returns no
  error at once, and the second marker is still in the bucket: the stack stays locked.
\<close>

theorem CancelCurrentUpdate_stops_at_missing_marker:
  "CancelCurrentUpdate
       \<lparr>originalURL = ''file:///state'', url = ''file:///state'',
        bucket = [(LockFile ''prod'' ''b'', LockObject)], lockID = ''c'', gzip = False,
        currentProject = None, store = legacyReferenceStore\<rparr>
       (Inr [\<lparr>Key = LockFile ''prod'' ''a'', IsDir = False\<rparr>,
             \<lparr>Key = LockFile ''prod'' ''b'', IsDir = False\<rparr>])
     = (\<lparr>originalURL = ''file:///state'', url = ''file:///state'',
         bucket = [(LockFile ''prod'' ''b'', LockObject)], lockID = ''c'', gzip = False,
         currentProject = None, store = legacyReferenceStore\<rparr>,
        None)
   \<and> lockMarkers [(LockFile ''prod'' ''b'', LockObject)] ''prod'' = [LockFile ''prod'' ''b'']"
  by (simp add: CancelCurrentUpdate_def bucket_Delete_def gcerrors_Code_def lockMarkers_def)

subsection \<open>Removing a stack\<close>

lemma lockMarkers_empty_notin:
  "lockMarkers bk fq = [] \<Longrightarrow> LockFile fq i \<notin> fst ` set bk"
  by (force simp: lockMarkers_def filter_empty_conv)

lemma Lock_free:
  assumes "lockMarkers (bucket b) (FullyQualifiedName ref) = []"
  shows "Lock b ref
           = Inr (b\<lparr>bucket := AList.update (LockFile (FullyQualifiedName ref) (lockID b)) LockObject
                                           (bucket b)\<rparr>)"
  using assms by (simp add: Lock_def)

lemma Lock_held:
  "lockMarkers (bucket b) (FullyQualifiedName ref) \<noteq> []
     \<Longrightarrow> Lock b ref = Inl (LockedError (FullyQualifiedName ref))"
  by (simp add: Lock_def)

lemma getStack_locked_eq:
  "getStack (b\<lparr>bucket := AList.update (LockFile fq i) LockObject (bucket b)\<rparr>) ref = getStack b ref"
  by (simp add: getStack_def getCheckpoint_def bucket_ReadAll_def stackPath_def update_conv')

lemma Unlock_after_Lock:
  assumes "lockMarkers (bucket b) (FullyQualifiedName ref) = []"
  shows "Unlock (b\<lparr>bucket := AList.update (LockFile (FullyQualifiedName ref) (lockID b)) LockObject
                                           (bucket b)\<rparr>) ref = b"
  using lockMarkers_empty_notin [OF assms, of "lockID b"]
  by (simp add: Unlock_def delete_update_same)

lemma backupTarget_moves:
  assumes "map_of bk target = Some obj"
  shows "map_of (backupTarget bk target False) target = None
       \<and> (\<exists>n. map_of (backupTarget bk target False) (BackupFile target n) = Some obj)"
proof -
  let ?n = "length (filter (\<lambda>k. case k of BackupFile f i \<Rightarrow> f = target | _ \<Rightarrow> False) (map fst bk))"
  have e: "backupTarget bk target False = AList.delete target (AList.update (BackupFile target ?n) obj bk)"
    using assms by (simp add: backupTarget_def Let_def)
  have "map_of (backupTarget bk target False) target = None"
    unfolding e by (simp add: delete_conv')
  moreover have "BackupFile target ?n \<noteq> target"
    by (induction target) auto
  then have "map_of (backupTarget bk target False) (BackupFile target ?n) = Some obj"
    unfolding e by (simp add: update_conv')
  ultimately show ?thesis by blast
qed

lemma map_of_filter_keys:
  assumes "P k"
  shows "map_of (filter (\<lambda>(k', obj). P k') bk) k = map_of bk k"
  using assms by (induction bk) auto

text \<open>
  C5. For a stack whose checkpoint is in the bucket: without the force flag, and with a
  snapshot that lists a resource, \<open>RemoveStack\<close> returns an error and the checkpoint
  object is as it was; when the reference is valid and the stack is not locked the error
  is "refusing to remove stack because it still contains resources" and the whole bucket
  is as it was. With the force flag, or with no resource in the snapshot, a valid and
  unlocked stack is removed: no error, no checkpoint object at the stack's path, and the
  checkpoint kept under a backup key.
\<close>

theorem RemoveStack_guard:
  assumes "map_of (bucket b) (stackPath ref) = Some (CheckpointObject chk)"
      and "hasResources = (case Latest chk of None \<Rightarrow> False | Some snap \<Rightarrow> Resources snap \<noteq> [])"
      and "RemoveStack validate b ref force = (b', r)"
  shows "(\<not> force \<and> hasResources
            \<longrightarrow> snd r \<noteq> None
                \<and> map_of (bucket b') (stackPath ref) = Some (CheckpointObject chk))
       \<and> (\<not> force \<and> hasResources \<and> validate ref = None
              \<and> lockMarkers (bucket b) (FullyQualifiedName ref) = []
            \<longrightarrow> r = (True, Some (Errorf ''refusing to remove stack because it still contains resources''))
                \<and> b' = b)
       \<and> ((force \<or> \<not> hasResources) \<and> validate ref = None
              \<and> lockMarkers (bucket b) (FullyQualifiedName ref) = []
            \<longrightarrow> r = (False, None)
                \<and> map_of (bucket b') (stackPath ref) = None
                \<and> (\<exists>n. map_of (bucket b') (BackupFile (stackPath ref) n) = Some (CheckpointObject chk)))"
proof -
  let ?fq = "FullyQualifiedName ref"
  let ?b1 = "b\<lparr>bucket := AList.update (LockFile ?fq (lockID b)) LockObject (bucket b)\<rparr>"
  have gs: "getStack b ref = Inr (Latest chk)"
    using assms(1) by (simp add: getStack_def getCheckpoint_def bucket_ReadAll_def)
  have gs1: "getStack ?b1 ref = Inr (Latest chk)"
    using gs by (simp add: getStack_locked_eq)
  have guard: "(case Latest chk of None \<Rightarrow> False | Some snap \<Rightarrow> length (Resources snap) > 0) = hasResources"
    unfolding assms(2) by (simp split: option.splits)
  have refuse: "r = (True, Some (Errorf ''refusing to remove stack because it still contains resources'')) \<and> b' = b"
    if "\<not> force" and "hasResources" and "validate ref = None" and "lockMarkers (bucket b) ?fq = []"
  proof -
    have "RemoveStack_locked ?b1 ref force
            = (?b1, True, Some (Errorf ''refusing to remove stack because it still contains resources''))"
      using that(1,2) gs1 guard by (simp add: RemoveStack_locked_def)
    then have "RemoveStack validate b ref force
            = (Unlock ?b1 ref, True, Some (Errorf ''refusing to remove stack because it still contains resources''))"
      using that(3) Lock_free [OF that(4)] by (simp add: RemoveStack_def getReference_def)
    then show ?thesis
      using assms(3) Unlock_after_Lock [OF that(4)] by simp
  qed
  have kept: "snd r \<noteq> None \<and> map_of (bucket b') (stackPath ref) = Some (CheckpointObject chk)"
    if "\<not> force" and "hasResources"
  proof (cases "validate ref")
    case (Some err)
    then have "RemoveStack validate b ref force = (b, False, Some err)"
      by (simp add: RemoveStack_def getReference_def)
    with assms(1,3) show ?thesis by auto
  next
    case None
    show ?thesis
    proof (cases "lockMarkers (bucket b) ?fq = []")
      case True
      from refuse [OF that None True] assms(1) show ?thesis by simp
    next
      case False
      then have "RemoveStack validate b ref force = (b, False, Some (LockedError ?fq))"
        using None Lock_held [OF False] by (simp add: RemoveStack_def getReference_def)
      with assms(1,3) show ?thesis by auto
    qed
  qed
  have removed: "r = (False, None) \<and> map_of (bucket b') (stackPath ref) = None
                  \<and> (\<exists>n. map_of (bucket b') (BackupFile (stackPath ref) n) = Some (CheckpointObject chk))"
    if "force \<or> \<not> hasResources" and "validate ref = None" and "lockMarkers (bucket b) ?fq = []"
  proof -
    let ?bt = "backupTarget (bucket ?b1) (stackPath ref) False"
    let ?keep = "\<lambda>k. case k of HistoryFile p n i \<Rightarrow> \<not> (p = project ref \<and> n = name ref) | _ \<Rightarrow> True"
    let ?b2 = "?b1\<lparr>bucket := filter (\<lambda>(k, obj). ?keep k) ?bt\<rparr>"
    have m1: "map_of (bucket ?b1) (stackPath ref) = Some (CheckpointObject chk)"
      using assms(1) by (simp add: update_conv' stackPath_def)
    from backupTarget_moves [OF m1] obtain n
      where gone: "map_of ?bt (stackPath ref) = None"
        and kept': "map_of ?bt (BackupFile (stackPath ref) n) = Some (CheckpointObject chk)"
      by blast
    have rl: "RemoveStack_locked ?b1 ref force = (?b2, False, None)"
      using that(1) gs1 guard by (auto simp: RemoveStack_locked_def removeStack_def)
    have "RemoveStack validate b ref force = (Unlock ?b2 ref, False, None)"
      using that(2) Lock_free [OF that(3)] rl by (simp add: RemoveStack_def getReference_def)
    with assms(3) have b': "b' = Unlock ?b2 ref" and r: "r = (False, None)"
      by simp_all
    have k1: "?keep (stackPath ref)" and k2: "?keep (BackupFile (stackPath ref) n)"
      by (simp_all add: stackPath_def)
    have "map_of (bucket b') (stackPath ref) = None"
      unfolding b' Unlock_def using gone map_of_filter_keys [of ?keep "stackPath ref" ?bt, OF k1]
      by (simp add: delete_conv')
    moreover have "map_of (bucket b') (BackupFile (stackPath ref) n) = Some (CheckpointObject chk)"
      unfolding b' Unlock_def
      using kept' map_of_filter_keys [of ?keep "BackupFile (stackPath ref) n" ?bt, OF k2]
      by (simp add: delete_conv')
    ultimately show ?thesis
      using r by blast
  qed
  show ?thesis
    using kept refuse removed by blast
qed

text \<open>
  The stack \<open>prod\<close> with one resource: refused without the force flag, the bucket
  untouched; removed with it, the checkpoint moved to a backup.
\<close>

theorem RemoveStack_guard_witness:
  "RemoveStack (\<lambda>r. None) backend_example \<lparr>name = ''prod'', project = ''''\<rparr> False
     = (backend_example,
        True, Some (Errorf ''refusing to remove stack because it still contains resources''))
   \<and> RemoveStack (\<lambda>r. None) backend_example \<lparr>name = ''prod'', project = ''''\<rparr> True
     = (backend_example
          \<lparr>bucket := [(StackFile '''' ''empty'', CheckpointObject \<lparr>Latest = None\<rparr>),
                      (BackupFile (StackFile '''' ''prod'') 0, CheckpointObject checkpoint_example)]\<rparr>,
        False, None)"
proof -
  let ?ref = "\<lparr>name = ''prod'', project = ''''\<rparr>"
  have m: "map_of (bucket backend_example) (stackPath ?ref) = Some (CheckpointObject checkpoint_example)"
    by (simp add: backend_example_def stackPath_def)
  have h: "True = (case Latest checkpoint_example of None \<Rightarrow> False | Some snap \<Rightarrow> Resources snap \<noteq> [])"
    by (simp add: checkpoint_example_def)
  have e1: "RemoveStack (\<lambda>r. None) backend_example ?ref False
     = (backend_example,
        True, Some (Errorf ''refusing to remove stack because it still contains resources''))"
    by (simp add: RemoveStack_def getReference_def Lock_def lockMarkers_def backend_example_def
                  FullyQualifiedName_def RemoveStack_locked_def getStack_def
                  getCheckpoint_def bucket_ReadAll_def stackPath_def checkpoint_example_def
                  Unlock_def)
  have e2: "RemoveStack (\<lambda>r. None) backend_example ?ref True
     = (backend_example
          \<lparr>bucket := [(StackFile '''' ''empty'', CheckpointObject \<lparr>Latest = None\<rparr>),
                      (BackupFile (StackFile '''' ''prod'') 0, CheckpointObject checkpoint_example)]\<rparr>,
        False, None)"
    by (simp add: RemoveStack_def getReference_def Lock_def lockMarkers_def backend_example_def
                  FullyQualifiedName_def RemoveStack_locked_def getStack_def
                  getCheckpoint_def bucket_ReadAll_def stackPath_def removeStack_def
                  backupTarget_def Unlock_def AList.delete_eq)
  show ?thesis
    using RemoveStack_guard [OF m h e1] RemoveStack_guard [OF m h e2] e1 e2
    by (intro conjI)
qed

subsection \<open>Migrating to the project layout\<close>

lemma layoutKey_simps:
  "layoutKey (StackFile p n)" "layoutKey MetaFile" "\<not> layoutKey (LockFile q i)"
  "\<not> layoutKey (HistoryFile p n j)" "\<not> layoutKey (BackupFile f m)"
  by (simp_all add: layoutKey_def)












































end
